theory Spec2Isabelle
  imports Complex_Main
begin

section \<open>Data model\<close>

text \<open>
  JavaScript numbers are modelled as exact reals: positions, sizes and velocities are
  finite numbers in the game, and NaN, the infinities and rounding are left out.
  A field that may hold \<open>undefined\<close> or \<open>null\<close> is an \<open>option\<close>; a function that ends in
  a bare \<open>return;\<close> yields \<open>None\<close> for \<open>undefined\<close>.

  Rectangles are the \<open>{ x, y, width, height }\<close> shape of \<open>core/logic.js\<close>; a unit's \<open>data\<close>
  object extends it with the fields the collision and targeting code reads.
\<close>

record rect =
  d_x :: real
  d_y :: real
  d_width :: real
  d_height :: real

record udata = rect +
  d_id :: string
  d_type :: string
  d_vX :: real
  d_vY :: real
  d_dead :: bool
  d_isInert :: bool
  d_expired :: bool
  d_hostile :: bool
  d_isEnemy :: bool
  d_isNeutral :: bool
  d_excludeFromCollision :: bool
  d_role :: nat
  d_xLookAhead :: "real option"
  d_widthOneThird :: "real option"
  d_cloaked :: bool
  d_bottomAligned :: bool
  d_flipped :: bool
  d_frontZone :: "nat option"
  d_rearZone :: "nat option"
  d_multiZone :: bool

text \<open>JavaScript truthiness of a value that is a boolean or \<open>undefined\<close>.\<close>

definition truthy :: "bool option \<Rightarrow> bool" where
  "truthy r = (r = Some True)"

section \<open>Overlap tests (core/logic.js)\<close>

definition collisionCheckX :: "'a rect_scheme \<Rightarrow> 'b rect_scheme \<Rightarrow> real \<Rightarrow> bool" where
  "collisionCheckX rect1 rect2 rect1XLookAhead =
     (d_x rect1 + rect1XLookAhead < d_x rect2 + d_width rect2 \<and>
      d_x rect1 + d_width rect1 + rect1XLookAhead > d_x rect2)"

text \<open>\<open>cc\<close>, exported as \<open>collisionCheck\<close> (the debug variant draws and then calls \<open>cc\<close>).\<close>

definition collisionCheck :: "'a rect_scheme \<Rightarrow> 'b rect_scheme \<Rightarrow> real \<Rightarrow> bool" where
  "collisionCheck rect1 rect2 rect1XLookAhead =
     (d_x rect1 + rect1XLookAhead < d_x rect2 + d_width rect2 \<and>
      d_x rect1 + d_width rect1 + rect1XLookAhead > d_x rect2 \<and>
      d_y rect1 < d_y rect2 + d_height rect2 \<and>
      d_y rect1 + d_height rect1 > d_y rect2)"

definition collisionCheckWithOffsets ::
  "'a rect_scheme \<Rightarrow> 'b rect_scheme \<Rightarrow> real \<Rightarrow> real \<Rightarrow> bool" where
  "collisionCheckWithOffsets rect1 rect2 r1XOffset r1YOffset =
     (d_x rect1 + r1XOffset < d_x rect2 + d_width rect2 \<and>
      d_x rect1 + d_width rect1 + r1XOffset > d_x rect2 \<and>
      d_y rect1 + r1YOffset < d_y rect2 + d_height rect2 \<and>
      d_y rect1 + r1YOffset + d_height rect1 > d_y rect2)"

subsection \<open>Sub-frame stepping\<close>

text \<open>
  \<open>parseInt(n, 10)\<close> of a number truncates it toward zero (for magnitudes that print in
  plain decimal notation, which velocities do).
\<close>

definition parseInt10 :: "real \<Rightarrow> real" where
  "parseInt10 r = (if 0 \<le> r then of_int \<lfloor>r\<rfloor> else of_int \<lceil>r\<rceil>)"

text \<open>
  The \<open>for (let i = 0; i < tweenSteps; i++)\<close> loop of \<open>collisionCheckTweens\<close>: add the
  step, test, and leave at the first hit with the offsets reached. \<open>tweenSteps\<close> need not
  be whole (it is half of a whole number).
\<close>

function tweenLoop ::
  "udata \<Rightarrow> udata \<Rightarrow> real \<Rightarrow> real \<Rightarrow> real \<Rightarrow> nat \<Rightarrow> real \<Rightarrow> real \<Rightarrow> (real \<times> real) option" where
  "tweenLoop sData tData tweenSteps stepX stepY i xOffset yOffset =
     (if real i < tweenSteps then
        (if collisionCheckWithOffsets sData tData (xOffset + stepX) (yOffset + stepY)
         then Some (xOffset + stepX, yOffset + stepY)
         else tweenLoop sData tData tweenSteps stepX stepY (Suc i)
                (xOffset + stepX) (yOffset + stepY))
      else None)"
  by pat_completeness auto
termination
proof (relation "measure (\<lambda>(sData, tData, tweenSteps, stepX, stepY, i, xOffset, yOffset).
                            nat \<lceil>tweenSteps\<rceil> - i)")
  show "wf (measure (\<lambda>(sData, tData, tweenSteps, stepX, stepY, i, xOffset, yOffset).
                            nat \<lceil>tweenSteps\<rceil> - i))"
    by simp
next
  fix sData tData :: udata and tweenSteps stepX stepY xOffset yOffset :: real and i :: nat
  assume "real i < tweenSteps"
  then have "i < nat \<lceil>tweenSteps\<rceil>"
    by linarith
  then show "((sData, tData, tweenSteps, stepX, stepY, Suc i, xOffset + stepX, yOffset + stepY),
              (sData, tData, tweenSteps, stepX, stepY, i, xOffset, yOffset))
             \<in> measure (\<lambda>(sData, tData, tweenSteps, stepX, stepY, i, xOffset, yOffset).
                            nat \<lceil>tweenSteps\<rceil> - i)"
    by simp
qed

declare tweenLoop.simps [simp del]

text \<open>
  \<open>collisionCheckTweens(sData, tData, repositionOnHit)\<close>. The result is the returned
  value (\<open>None\<close> for the two bare returns) and the source data, moved to the point of
  collision when there was a hit and \<open>repositionOnHit\<close> is set.
\<close>

definition collisionCheckTweens ::
  "udata option \<Rightarrow> udata option \<Rightarrow> bool \<Rightarrow> bool option \<times> udata option" where
  "collisionCheckTweens sDataOpt tDataOpt repositionOnHit =
     (case (sDataOpt, tDataOpt) of
        (Some sData, Some tData) \<Rightarrow>
          if (d_expired sData \<and> \<not> d_hostile sData) \<or> (d_expired tData \<and> \<not> d_hostile tData)
          then (None, sDataOpt)
          else
            let xOffset = - d_vX sData;
                yOffset = - d_vY sData;
                minTweenSteps = 2;
                tweenSteps = max minTweenSteps
                               (parseInt10 (max \<bar>d_vX sData\<bar> \<bar>d_vY sData\<bar>) / 2);
                tweenDivider = tweenSteps + 1;
                stepX = d_vX sData / tweenDivider;
                stepY = d_vY sData / tweenDivider
            in (case tweenLoop sData tData tweenSteps stepX stepY 0 xOffset yOffset of
                  Some (xo, yo) \<Rightarrow>
                    (Some True,
                     if repositionOnHit
                     then Some (sData\<lparr>d_x := d_x sData + xo, d_y := d_y sData + yo\<rparr>)
                     else sDataOpt)
                | None \<Rightarrow> (Some False, sDataOpt))
      | _ \<Rightarrow> (None, sDataOpt))"

section \<open>Unit types (core/global.js)\<close>

text \<open>The values of the \<open>TYPES\<close> table that the code below compares against.\<close>

abbreviation TYPES_tank :: string where "TYPES_tank \<equiv> ''tank''"
abbreviation TYPES_van :: string where "TYPES_van \<equiv> ''van''"
abbreviation TYPES_turret :: string where "TYPES_turret \<equiv> ''turret''"
abbreviation TYPES_helicopter :: string where "TYPES_helicopter \<equiv> ''helicopter''"
abbreviation TYPES_infantry :: string where "TYPES_infantry \<equiv> ''infantry''"
abbreviation TYPES_engineer :: string where "TYPES_engineer \<equiv> ''engineer''"
abbreviation TYPES_bunker :: string where "TYPES_bunker \<equiv> ''bunker''"
abbreviation TYPES_endBunker :: string where "TYPES_endBunker \<equiv> ''end-bunker''"
abbreviation TYPES_superBunker :: string where "TYPES_superBunker \<equiv> ''super-bunker''"
abbreviation TYPES_balloon :: string where "TYPES_balloon \<equiv> ''balloon''"
abbreviation TYPES_gunfire :: string where "TYPES_gunfire \<equiv> ''gunfire''"

section \<open>Bomb ledger (units/Helicopter-AI.js)\<close>

text \<open>
  \<open>bombsByTarget\<close> maps a target key to \<open>{ bombCount, bombLimit, timer }\<close>. The entry's
  \<open>timer\<close> is the handle of a pending frame timer or \<open>null\<close>.
\<close>

record bomb_entry =
  bombCount :: int
  bombLimit :: int
  timer :: "nat option"

text \<open>
  A pending frame timer of the ledger: its handle, the \<open>id\<close> captured by its callback
  \<open>() => delete bombsByTarget[id]\<close>, and the ticks left until it fires.
\<close>

record frame_timer =
  ft_handle :: nat
  ft_key :: string
  ft_remaining :: nat

record ledger =
  bombsByTarget :: "string \<rightharpoonup> bomb_entry"
  frameTimers :: "frame_timer list"
  nextTimer :: nat

definition empty_ledger :: ledger where
  "empty_ledger = \<lparr>bombsByTarget = Map.empty, frameTimers = [], nextTimer = 0\<rparr>"

text \<open>
  Modelled from the spec: \<open>common.setFrameTimeout\<close> and the \<open>reset()\<close> of the timer it
  returns live in \<open>core/common.js\<close>, which is not among the sources. The spec's timer
  scheduler is \<open>schedule(durationTicks, callback) -> handle\<close> and \<open>cancel(handle)\<close>, with
  at-most-once invocation and cancellation before expiry; timers are frame-counted.
  \<open>setFrameTimeout\<close> registers a timer under a fresh handle, \<open>timer_reset\<close> cancels it,
  and \<open>tick\<close> advances one frame: every timer that is due runs its callback (here always
  the deletion of its captured key) and is dropped.
\<close>

definition setFrameTimeout :: "string \<Rightarrow> nat \<Rightarrow> ledger \<Rightarrow> nat \<times> ledger" where
  "setFrameTimeout key delay L =
     (nextTimer L,
      L\<lparr>frameTimers := frameTimers L @
             [\<lparr>ft_handle = nextTimer L, ft_key = key, ft_remaining = delay\<rparr>],
        nextTimer := Suc (nextTimer L)\<rparr>)"

definition timer_reset :: "nat \<Rightarrow> ledger \<Rightarrow> ledger" where
  "timer_reset h L = L\<lparr>frameTimers := filter (\<lambda>t. ft_handle t \<noteq> h) (frameTimers L)\<rparr>"

definition timer_due :: "frame_timer \<Rightarrow> bool" where
  "timer_due t = (ft_remaining t \<le> 1)"

definition tick :: "ledger \<Rightarrow> ledger" where
  "tick L =
     L\<lparr>bombsByTarget :=
         fold (\<lambda>t m. m(ft_key t := None)) (filter timer_due (frameTimers L)) (bombsByTarget L),
       frameTimers :=
         map (\<lambda>t. t\<lparr>ft_remaining := ft_remaining t - 1\<rparr>)
             (filter (\<lambda>t. \<not> timer_due t) (frameTimers L))\<rparr>"

text \<open>
  A target is \<open>{ data }\<close>; \<open>None\<close> stands for a missing target or one without \<open>data\<close>.
  \<open>bNapalm\<close> is \<open>levelConfig.bNapalm\<close>.
\<close>

definition getBombTargetID :: "bool \<Rightarrow> udata option \<Rightarrow> string" where
  "getBombTargetID bNapalm target =
     (case target of
        None \<Rightarrow> ''''
      | Some d \<Rightarrow>
          if (d_type d = TYPES_infantry \<or> d_type d = TYPES_engineer) \<and> bNapalm
          then ''men'' else d_id d)"

definition canBombTarget :: "bool \<Rightarrow> udata option \<Rightarrow> ledger \<Rightarrow> bool option \<times> ledger" where
  "canBombTarget bNapalm target L =
     (case target of
        None \<Rightarrow> (None, L)
      | Some d \<Rightarrow>
          if d_type d = TYPES_turret then (Some True, L)
          else
            let id = getBombTargetID bNapalm target;
                bbt = (case bombsByTarget L id of
                         None \<Rightarrow>
                           \<lparr>bombCount = 0,
                            bombLimit = (if d_type d = TYPES_tank \<or> d_type d = TYPES_helicopter
                                         then 3 else 1),
                            timer = None\<rparr>
                       | Some e \<Rightarrow> e);
                L' = L\<lparr>bombsByTarget := (bombsByTarget L)(id \<mapsto> bbt)\<rparr>
            in if bombCount bbt \<ge> bombLimit bbt then (None, L') else (Some True, L'))"

definition addBomb :: "bool \<Rightarrow> udata option \<Rightarrow> ledger \<Rightarrow> ledger" where
  "addBomb bNapalm target L =
     (let id = getBombTargetID bNapalm target in
      case bombsByTarget L id of
        None \<Rightarrow> L
      | Some data \<Rightarrow>
          let data' = data\<lparr>bombCount := bombCount data + 1\<rparr> in
          (case timer data' of
             Some h \<Rightarrow>
               (timer_reset h L)\<lparr>bombsByTarget := (bombsByTarget L)(id \<mapsto> data'\<lparr>timer := None\<rparr>)\<rparr>
           | None \<Rightarrow> L\<lparr>bombsByTarget := (bombsByTarget L)(id \<mapsto> data')\<rparr>))"

definition removeBomb :: "bool \<Rightarrow> udata option \<Rightarrow> ledger \<Rightarrow> ledger" where
  "removeBomb bNapalm target L =
     (let id = getBombTargetID bNapalm target in
      case bombsByTarget L id of
        None \<Rightarrow> L
      | Some data \<Rightarrow>
          let data' = data\<lparr>bombCount := max 0 (bombCount data - 1)\<rparr> in
          if bombCount data' = 0
          then L\<lparr>bombsByTarget := (bombsByTarget L)(id := None)\<rparr>
          else L\<lparr>bombsByTarget := (bombsByTarget L)(id \<mapsto> data')\<rparr>)"

definition clearBombWithDelay :: "bool \<Rightarrow> udata option \<Rightarrow> nat \<Rightarrow> ledger \<Rightarrow> ledger" where
  "clearBombWithDelay bNapalm target delay L =
     (let id = getBombTargetID bNapalm target in
      case bombsByTarget L id of
        None \<Rightarrow> L
      | Some data \<Rightarrow>
          (case timer data of
             Some h \<Rightarrow> L
           | None \<Rightarrow>
               let (h, L') = setFrameTimeout id delay L in
               L'\<lparr>bombsByTarget := (bombsByTarget L')(id \<mapsto> data\<lparr>timer := Some h\<rparr>)\<rparr>))"

text \<open>
  The bombing code of the helicopter (its only caller) drops a bomb on an AI target
  with \<open>if (!data.ai.canBombTarget(bombTarget)) return; data.ai.addBomb(bombTarget);\<close>.
\<close>

definition dropBomb :: "bool \<Rightarrow> udata option \<Rightarrow> ledger \<Rightarrow> ledger" where
  "dropBomb bNapalm target L =
     (let (ok, L') = canBombTarget bNapalm target L in
      if \<not> truthy ok then L' else addBomb bNapalm target L')"

text \<open>One round of bombing a target: \<open>canBombTarget\<close>, then \<open>addBomb\<close>.\<close>

definition bombRound :: "bool \<Rightarrow> udata option \<Rightarrow> ledger \<Rightarrow> ledger" where
  "bombRound bNapalm target L = addBomb bNapalm target (snd (canBombTarget bNapalm target L))"

text \<open>Calls on the ledger, and what a sequence of them does to it.\<close>

datatype ledger_op =
    CanBombTarget "udata option"
  | AddBomb "udata option"
  | DropBomb "udata option"
  | RemoveBomb "udata option"
  | ClearBombWithDelay "udata option" nat
  | Tick

fun apply_op :: "bool \<Rightarrow> ledger_op \<Rightarrow> ledger \<Rightarrow> ledger" where
  "apply_op bNapalm (CanBombTarget t) L = snd (canBombTarget bNapalm t L)"
| "apply_op bNapalm (AddBomb t) L = addBomb bNapalm t L"
| "apply_op bNapalm (DropBomb t) L = dropBomb bNapalm t L"
| "apply_op bNapalm (RemoveBomb t) L = removeBomb bNapalm t L"
| "apply_op bNapalm (ClearBombWithDelay t delay) L = clearBombWithDelay bNapalm t delay L"
| "apply_op bNapalm Tick L = tick L"

fun run_ops :: "bool \<Rightarrow> ledger_op list \<Rightarrow> ledger \<Rightarrow> ledger" where
  "run_ops bNapalm [] L = L"
| "run_ops bNapalm (op # ops) L = run_ops bNapalm ops (apply_op bNapalm op L)"

fun op_target :: "ledger_op \<Rightarrow> udata option" where
  "op_target (CanBombTarget t) = t"
| "op_target (AddBomb t) = t"
| "op_target (DropBomb t) = t"
| "op_target (RemoveBomb t) = t"
| "op_target (ClearBombWithDelay t delay) = t"
| "op_target Tick = None"

fun is_AddBomb :: "ledger_op \<Rightarrow> bool" where
  "is_AddBomb (AddBomb t) = True"
| "is_AddBomb _ = False"

fun is_CanBombTarget :: "ledger_op \<Rightarrow> bool" where
  "is_CanBombTarget (CanBombTarget t) = True"
| "is_CanBombTarget _ = False"

text \<open>
  The ledger invariant for the entry under key \<open>k\<close>, after the calls \<open>ops\<close>: its count
  is at least 1 and at most its limit, and its limit is that of a target some bomb was
  dropped on under this key: 3 for a tank or a helicopter, 1 otherwise.
\<close>

definition entry_within :: "bool \<Rightarrow> ledger_op list \<Rightarrow> string \<Rightarrow> bomb_entry \<Rightarrow> bool" where
  "entry_within bNapalm ops k e =
     (1 \<le> bombCount e \<and> bombCount e \<le> bombLimit e \<and>
      (\<exists>u. DropBomb (Some u) \<in> set ops \<and> getBombTargetID bNapalm (Some u) = k \<and>
           d_type u \<noteq> TYPES_turret \<and>
           bombLimit e = (if d_type u = TYPES_tank \<or> d_type u = TYPES_helicopter then 3 else 1)))"

text \<open>
  Unit ids are unique in the game, so a turret (never recorded in the ledger) does not
  share its id with the ledger key of a unit of another type.
\<close>

definition turret_keys_apart :: "bool \<Rightarrow> ledger_op list \<Rightarrow> bool" where
  "turret_keys_apart bNapalm ops =
     (\<forall>a \<in> set ops. \<forall>b \<in> set ops.
        case (op_target a, op_target b) of
          (Some t, Some u) \<Rightarrow>
            d_type t = TYPES_turret \<and> d_type u \<noteq> TYPES_turret
              \<longrightarrow> d_id t \<noteq> getBombTargetID bNapalm (Some u)
        | _ \<Rightarrow> True)"

text \<open>
  A call lowers the count recorded under key \<open>k\<close> when it is a \<open>removeBomb\<close> on that key,
  or a tick on which a timer for that key expires. A sequence is quiet for \<open>k\<close> when
  none of its calls does so in the state it is made in.
\<close>

fun lowers :: "bool \<Rightarrow> string \<Rightarrow> ledger_op \<Rightarrow> ledger \<Rightarrow> bool" where
  "lowers bNapalm k (RemoveBomb t) L = (getBombTargetID bNapalm t = k)"
| "lowers bNapalm k Tick L = (k \<in> ft_key ` set (filter timer_due (frameTimers L)))"
| "lowers bNapalm k _ L = False"

fun quiet :: "bool \<Rightarrow> string \<Rightarrow> ledger_op list \<Rightarrow> ledger \<Rightarrow> bool" where
  "quiet bNapalm k [] L = True"
| "quiet bNapalm k (op # ops) L =
     (\<not> lowers bNapalm k op L \<and> quiet bNapalm k ops (apply_op bNapalm op L))"

section \<open>Helicopter AI state (units/Helicopter-AI.js)\<close>

text \<open>
  The fields of the helicopter's \<open>data\<close> that the velocity clamp, retaliation mode and
  weapon-intent resolution use. \<open>h_attackB\<close> and \<open>h_retaliation\<close> are
  \<open>data.targeting.attackB\<close> and \<open>data.targeting.retaliation\<close>; \<open>h_votes_ammo\<close> and
  \<open>h_votes_bomb\<close> are \<open>data.votes\<close>. \<open>h_retaliationTimers\<close> holds the ticks left of
  every pending frame timer set by \<open>maybeEngageRetaliationMode\<close>; \<open>h_fireRateCalls\<close> and
  \<open>h_bombRateCalls\<close> record the argument of each \<open>setCPUFiringRate\<close> and
  \<open>setCPUBombingRate\<close> call.
\<close>

record heli_data =
  h_x :: real
  h_vX :: real
  h_vY :: real
  h_vXMax :: real
  h_vXMaxClipped :: real
  h_useClippedSpeed :: bool
  h_attackB :: bool
  h_retaliation :: bool
  h_firing :: bool
  h_bombing :: bool
  h_ammo :: nat
  h_bombs :: nat
  h_votes_ammo :: nat
  h_votes_bomb :: nat
  h_ammoTargets :: "udata list"
  h_bombTargets :: "udata list"
  h_ammoTarget :: "udata option"
  h_fireRateCalls :: "string option list"
  h_bombRateCalls :: "string option list"
  h_retaliationTimers :: "nat list"

definition retaliationModeDuration :: nat where
  "retaliationModeDuration = 30000"

definition throttleVelocity :: "heli_data \<Rightarrow> heli_data" where
  "throttleVelocity data =
     (let max' = (if h_useClippedSpeed data \<and> \<not> h_retaliation data
                  then h_vXMaxClipped data else h_vXMax data) / 2;
          data1 = data\<lparr>h_vX := max (- max') (min max' (h_vX data))\<rparr>
      in data1\<lparr>h_vY := max (- max') (min max' (h_vY data1))\<rparr>)"

text \<open>
  \<open>maybeEngageRetaliationMode\<close>; \<open>killCopterB\<close> is \<open>levelConfig.killCopterB\<close>. Its only
  effect is the frame timer whose callback is \<open>data.targeting.retaliation = false\<close>.
\<close>

definition maybeEngageRetaliationMode :: "bool \<Rightarrow> heli_data \<Rightarrow> heli_data" where
  "maybeEngageRetaliationMode killCopterB data =
     (if \<not> killCopterB \<or> \<not> h_attackB data then data
      else if h_retaliation data then data
      else data\<lparr>h_retaliationTimers := h_retaliationTimers data @ [retaliationModeDuration]\<rparr>)"

text \<open>
  Modelled from the spec: the frame timers of \<open>core/common.js\<close> (not among the sources),
  as for the ledger. One tick runs the callback of every due timer, which here clears
  the retaliation flag.
\<close>

definition retaliation_tick :: "heli_data \<Rightarrow> heli_data" where
  "retaliation_tick data =
     (let due = filter (\<lambda>r. r \<le> 1) (h_retaliationTimers data);
          rest = map (\<lambda>r. r - 1) (filter (\<lambda>r. \<not> r \<le> 1) (h_retaliationTimers data))
      in data\<lparr>h_retaliation := (if due = [] then h_retaliation data else False),
               h_retaliationTimers := rest\<rparr>)"

subsection \<open>Weapon-intent resolution\<close>

text \<open>
  Modelled from the spec: \<open>utils.array.compare\<close> lives in \<open>core/utils.js\<close>, which is not
  among the sources. The spec describes the \<open>sort(utils.array.compare('totalDistance'))\<close>
  of the nearest-object query as "sorts ascending by distance": \<open>compare(p)\<close> orders
  ascending by property \<open>p\<close>. \<open>Array.prototype.sort\<close> is stable, as \<open>sort_key\<close> is.
\<close>

definition sort_compare :: "('a \<Rightarrow> real) \<Rightarrow> 'a list \<Rightarrow> 'a list" where
  "sort_compare property xs = sort_key property xs"

text \<open>
  \<open>maybeFireOrBomb(data, options)\<close>. \<open>callAction\<close> is \<open>options.exports.callAction\<close>, which
  acts at once or after a network delay; it is a parameter here.
\<close>

definition maybeFireOrBomb ::
  "(string \<Rightarrow> bool \<Rightarrow> heli_data \<Rightarrow> heli_data) \<Rightarrow> heli_data \<Rightarrow> heli_data" where
  "maybeFireOrBomb callAction data0 =
     (let data1 = (if \<not> h_bombing data0 \<and> h_votes_bomb data0 \<noteq> 0
                   then callAction ''setBombing'' True data0
                   else if h_bombing data0 \<and> h_votes_bomb data0 = 0
                   then callAction ''setBombing'' False data0
                   else data0);
          data2 = (if \<not> h_firing data1 \<and> h_votes_ammo data1 \<noteq> 0
                   then callAction ''setFiring'' True data1
                   else if h_firing data1 \<and> h_votes_ammo data1 = 0
                   then (callAction ''setFiring'' False data1)\<lparr>h_ammoTarget := None\<rparr>
                   else data1);
          data3 = (if h_firing data2 \<and> h_ammo data2 \<noteq> 0
                   then
                     let sorted = sort_compare d_x (h_ammoTargets data2);
                         first = (case sorted of [] \<Rightarrow> None | t # _ \<Rightarrow> Some t)
                     in data2\<lparr>h_ammoTargets := sorted,
                              h_ammoTarget := first,
                              h_fireRateCalls := h_fireRateCalls data2 @ [map_option d_type first]\<rparr>
                   else data2);
          data4 = (if h_bombing data3 \<and> h_bombs data3 \<noteq> 0
                   then
                     let sorted = sort_compare d_x (h_bombTargets data3);
                         first = (case sorted of [] \<Rightarrow> None | t # _ \<Rightarrow> Some t)
                     in data3\<lparr>h_bombTargets := sorted,
                              h_bombRateCalls := h_bombRateCalls data3 @ [map_option d_type first]\<rparr>
                   else data3)
      in data4)"

section \<open>Type queries (core/global.js)\<close>

subsection \<open>String helpers\<close>

text \<open>
  \<open>s.split(c)\<close> for a one-character separator: the pieces between the separators, with
  empty pieces kept (\<open>''.split(' ')\<close> is \<open>['']\<close>).
\<close>

fun split_on :: "char \<Rightarrow> string \<Rightarrow> string list" where
  "split_on c [] = [[]]"
| "split_on c (x # xs) =
     (if x = c then [] # split_on c xs
      else (case split_on c xs of
              [] \<Rightarrow> [[x]]
            | w # ws \<Rightarrow> (x # w) # ws))"

text \<open>The character class \<open>[\s|,]\<close>, on ASCII: white space, the bar and the comma.\<close>

definition isDelimiter :: "char \<Rightarrow> bool" where
  "isDelimiter c =
     (c = CHR '' '' \<or> c = CHR 0x09 \<or> c = CHR 0x0A \<or> c = CHR 0x0B \<or> c = CHR 0x0C \<or>
      c = CHR 0x0D \<or> c = CHR ''|'' \<or> c = CHR '','')"

text \<open>\<open>s.replace(/[\s|,]+/g, ' ')\<close>: every maximal run of delimiters becomes one space.\<close>

function normalizeDelimiters :: "string \<Rightarrow> string" where
  "normalizeDelimiters [] = []"
| "normalizeDelimiters (c # cs) =
     (if isDelimiter c then CHR '' '' # normalizeDelimiters (dropWhile isDelimiter cs)
      else c # normalizeDelimiters cs)"
  by pat_completeness auto
termination
proof (relation "measure length")
  show "wf (measure length)"
    by simp
next
  fix c :: char and cs :: string
  have "length (dropWhile isDelimiter cs) \<le> length cs"
    by (rule length_dropWhile_le)
  then show "(dropWhile isDelimiter cs, c # cs) \<in> measure length"
    by simp
next
  fix c :: char and cs :: string
  show "(cs, c # cs) \<in> measure length"
    by simp
qed

definition toUpperCase_char :: "char \<Rightarrow> char" where
  "toUpperCase_char c =
     (if 97 \<le> (of_char c :: nat) \<and> (of_char c :: nat) \<le> 122
      then char_of ((of_char c :: nat) - 32) else c)"

subsection \<open>The type table\<close>

definition TYPES_names :: "string list" where
  "TYPES_names =
     [''aimed-missile'', ''base'', ''bomb'', ''balloon'', ''bunker'', ''chain'', ''cloud'',
      ''cornholio'', ''engineer'', ''flame'', ''gunfire'', ''helicopter'', ''infantry'',
      ''end-bunker'', ''landing-pad'', ''missile-launcher'', ''missile-napalm'',
      ''parachute-infantry'', ''smart-missile'', ''smoke'', ''shrapnel'', ''star'',
      ''super-bunker'', ''tank'', ''turret'', ''terrain-item'', ''van'']"

text \<open>Dash-case to camelCase: the second piece is capitalised and the pieces are joined.\<close>

definition camelCase :: "string \<Rightarrow> string" where
  "camelCase type' =
     (case split_on CHR ''-'' type' of
        a0 # a1 # rest \<Rightarrow>
          concat (a0 # (case a1 of [] \<Rightarrow> [] | c # cs \<Rightarrow> toUpperCase_char c # cs) # rest)
      | _ \<Rightarrow> type')"

definition TYPES_table :: "(string \<times> string) list" where
  "TYPES_table =
     concat (map (\<lambda>type'. if CHR ''-'' \<in> set type'
                            then [(type', type'), (camelCase type', type')]
                            else [(type', type')]) TYPES_names)"

text \<open>\<open>TYPES[key]\<close>; \<open>None\<close> is \<open>undefined\<close>, the value for a key that is no type.\<close>

definition TYPES :: "string \<rightharpoonup> string" where
  "TYPES key = map_of TYPES_table key"

subsection \<open>Query construction\<close>

datatype js_error = TypeError

text \<open>
  An element of a query: \<open>{ type, group }\<close>, either of which can be \<open>undefined\<close>.
  The options of \<open>getTypes\<close> are \<open>{ group, exports }\<close>; \<open>exports\<close> is absent (\<open>None\<close>) or a
  game object, whose \<open>data\<close> is read (\<open>Some None\<close> is an object without \<open>data\<close>).
\<close>

record type_item =
  t_type :: "string option"
  t_group :: "string option"

record getTypes_options =
  o_group :: "string option"
  o_exports :: "udata option option"

definition enemyGroupMap :: "string \<rightharpoonup> string" where
  "enemyGroupMap = [''friendly'' \<mapsto> ''enemy'', ''enemy'' \<mapsto> ''friendly'']"

text \<open>\<open>determineGroup(group = 'all', exports)\<close>; reading \<open>exports.data.isEnemy\<close> of an
  object without \<open>data\<close> throws.\<close>

definition determineGroup :: "string option \<Rightarrow> udata option option \<Rightarrow> js_error + string option" where
  "determineGroup groupArg exports =
     (let grp = (case groupArg of None \<Rightarrow> ''all'' | Some g \<Rightarrow> g) in
      if grp = ''all'' then Inr (Some grp)
      else (case exports of
              None \<Rightarrow> Inr None
            | Some None \<Rightarrow> Inl TypeError
            | Some (Some data) \<Rightarrow>
                if d_isEnemy data \<or> d_hostile data then Inr (enemyGroupMap grp)
                else Inr (Some grp)))"

definition parseTypeString :: "string option \<Rightarrow> string list" where
  "parseTypeString typeString =
     (case typeString of
        None \<Rightarrow> []
      | Some s \<Rightarrow> split_on CHR '' '' (normalizeDelimiters s))"

text \<open>The callback of the \<open>map\<close> in \<open>getTypes\<close>.\<close>

definition getTypes_item ::
  "string option \<Rightarrow> udata option option \<Rightarrow> string \<Rightarrow> js_error + type_item" where
  "getTypes_item grp exports item =
     (if CHR '':'' \<in> set item then
        (case split_on CHR '':'' item of
           a0 # a1 # rest \<Rightarrow>
             (case determineGroup (Some a1) exports of
                Inl e \<Rightarrow> Inl e
              | Inr g \<Rightarrow> Inr \<lparr>t_type = TYPES a0, t_group = g\<rparr>)
         | [a0] \<Rightarrow>
             (case determineGroup None exports of
                Inl e \<Rightarrow> Inl e
              | Inr g \<Rightarrow> Inr \<lparr>t_type = TYPES a0, t_group = g\<rparr>)
         | [] \<Rightarrow>
             (case determineGroup None exports of
                Inl e \<Rightarrow> Inl e
              | Inr g \<Rightarrow> Inr \<lparr>t_type = None, t_group = g\<rparr>))
      else Inr \<lparr>t_type = TYPES item, t_group = grp\<rparr>)"

text \<open>\<open>Array.prototype.map\<close> with a callback that may throw: the first throw ends it.\<close>

fun map_throwing :: "('a \<Rightarrow> js_error + 'b) \<Rightarrow> 'a list \<Rightarrow> js_error + 'b list" where
  "map_throwing f [] = Inr []"
| "map_throwing f (x # xs) =
     (case f x of
        Inl e \<Rightarrow> Inl e
      | Inr y \<Rightarrow> (case map_throwing f xs of Inl e \<Rightarrow> Inl e | Inr ys \<Rightarrow> Inr (y # ys)))"

text \<open>\<open>getTypes(typeString, options)\<close>; a \<open>typeString\<close> that is no string is \<open>None\<close>.\<close>

definition getTypes :: "string option \<Rightarrow> getTypes_options \<Rightarrow> js_error + type_item list" where
  "getTypes typeString options =
     (case typeString of
        None \<Rightarrow> Inr []
      | Some s \<Rightarrow>
          let exports = o_exports options;
              group0 = (case o_group options of
                          None \<Rightarrow> ''enemy''
                        | Some g \<Rightarrow> if g = [] then ''enemy'' else g)
          in (case (if group0 \<noteq> ''all'' then determineGroup (Some group0) exports
                    else Inr (Some group0)) of
                Inl e \<Rightarrow> Inl e
              | Inr grp \<Rightarrow> map_throwing (getTypes_item grp exports) (parseTypeString typeString)))"

text \<open>The type part of a token: the token itself, or what precedes its first colon.\<close>

definition typePart :: "string \<Rightarrow> string" where
  "typePart item = (case split_on CHR '':'' item of a0 # _ \<Rightarrow> a0 | [] \<Rightarrow> item)"

text \<open>
  Two limits of the table as a map. \<open>TYPES\<close> is a plain object, so a key that names a
  member of \<open>Object.prototype\<close> yields that member rather than \<open>undefined\<close>; and \<open>\s\<close> also
  matches white space outside ASCII. The statements about the types of the elements are
  made for ASCII strings and for keys outside this list.
\<close>

definition objectPrototypeNames :: "string list" where
  "objectPrototypeNames =
     [''constructor'', ''__defineGetter__'', ''__defineSetter__'', ''hasOwnProperty'',
      ''__lookupGetter__'', ''__lookupSetter__'', ''isPrototypeOf'', ''propertyIsEnumerable'',
      ''toString'', ''valueOf'', ''__proto__'', ''toLocaleString'']"

definition isASCII :: "string \<Rightarrow> bool" where
  "isASCII s = list_all (\<lambda>c. (of_char c :: nat) < 128) s"

section \<open>Collision dispatch (core/logic.js)\<close>

text \<open>
  Game objects live in a store: \<open>objectData\<close> gives the \<open>data\<close> of the object at a
  reference, \<open>objectsById\<close> is \<open>getObjectById\<close>, and \<open>objectsByZone\<close> is
  \<open>zones.objectsByZone[zone][group][type]\<close>, the ids in the order \<open>for ... in\<close> visits
  them. The source's \<open>sData\<close> is a reference into the store, so what a hit callback
  does to the source is seen by the rest of the loop.
\<close>

record game =
  objectsById :: "string \<rightharpoonup> nat"
  objectData :: "nat \<Rightarrow> udata"
  objectsByZone :: "nat \<rightharpoonup> (string \<rightharpoonup> (string \<rightharpoonup> string list))"

text \<open>
  \<open>options.source\<close> is an id, a \<open>data\<close> object, or (after the first-run fallback of
  \<open>collisionTest\<close>) the game object itself.
\<close>

datatype source = SourceId string | SourceData nat | SourceExports nat

record collision_options =
  co_source :: "source option"
  co_targets :: "string list option"
  co_useLookAhead :: bool
  co_friendlyOnly :: bool
  co_checkTweens :: bool
  co_checkTweensRepositionOnHit :: bool
  co_hit :: "(string \<Rightarrow> source option \<Rightarrow> game \<Rightarrow> game) option"

text \<open>
  One invocation of \<open>options.hit\<close>: the id passed, and the target's and the source's
  \<open>data\<close> at the moment of the call.
\<close>

record hit_call =
  hc_id :: string
  hc_target :: udata
  hc_source :: udata

text \<open>The eligibility test of \<open>collisionCheckObject\<close>, for a target that exists.\<close>

definition collisionEligible :: "bool \<Rightarrow> udata \<Rightarrow> udata \<Rightarrow> bool" where
  "collisionEligible friendlyOnly sData tData =
     (d_id tData \<noteq> d_id sData \<and>
      \<not> d_excludeFromCollision tData \<and>
      (\<not> d_dead tData \<or>
         (d_type tData = TYPES_turret \<and> d_type sData = TYPES_infantry \<and> d_role sData \<noteq> 0)) \<and>
      ((d_isEnemy tData \<noteq> d_isEnemy sData \<and> \<not> friendlyOnly) \<or>
       (friendlyOnly \<and> d_isEnemy tData = d_isEnemy sData) \<or>
       (d_type sData = TYPES_helicopter \<and> d_type tData = TYPES_superBunker) \<or>
       (d_type sData = TYPES_infantry \<and> d_type tData = TYPES_bunker) \<or>
       (d_type tData = TYPES_infantry \<and>
          ((d_type sData = TYPES_endBunker \<and> d_role tData = 0) \<or>
           (d_type sData = TYPES_superBunker \<and> d_role tData = 0) \<or>
           d_type sData = TYPES_helicopter)) \<or>
       (d_type sData = TYPES_infantry \<and> d_role sData \<noteq> 0 \<and> d_type tData = TYPES_turret) \<or>
       d_hostile sData \<or> d_hostile tData \<or> d_isNeutral sData \<or> d_isNeutral tData))"

text \<open>
  The \<open>for (targetID in options.targets)\<close> loop. \<open>updateEnergy\<close> is
  \<open>sprites.updateEnergy\<close>, which is outside the sources and a parameter here. The
  accumulator is \<open>foundHit\<close>, the game and the hit calls made so far. The tween check
  runs only when the plain check failed, and the super-bunker check only when both did.
  The callbacks act on the game and not on the \<open>options\<close> object, so the loop's
  safeguard against \<open>options.targets\<close> becoming undefined is never taken.
\<close>

fun collisionCheckObject_loop ::
  "(string \<Rightarrow> game \<Rightarrow> game) \<Rightarrow> collision_options \<Rightarrow> nat \<Rightarrow> real \<Rightarrow> string list \<Rightarrow>
   bool option \<times> game \<times> hit_call list \<Rightarrow> bool option \<times> game \<times> hit_call list" where
  "collisionCheckObject_loop updateEnergy options sRef xLookAhead [] acc = acc"
| "collisionCheckObject_loop updateEnergy options sRef xLookAhead (targetID # rest)
     (foundHit, g, calls) =
     (case objectsById g targetID of
        None \<Rightarrow>
          collisionCheckObject_loop updateEnergy options sRef xLookAhead rest (foundHit, g, calls)
      | Some tRef \<Rightarrow>
          let sData = objectData g sRef;
              tData = objectData g tRef
          in if collisionEligible (co_friendlyOnly options) sData tData then
               let plain = collisionCheck sData tData xLookAhead;
                   tween = (if \<not> plain \<and> co_checkTweens options
                            then collisionCheckTweens (Some sData) (Some tData)
                                   (co_checkTweensRepositionOnHit options)
                            else (None, Some sData));
                   sData1 = (case snd tween of Some d \<Rightarrow> d | None \<Rightarrow> sData);
                   g1 = g\<lparr>objectData := (objectData g)(sRef := sData1)\<rparr>;
                   superBunker = (\<not> plain \<and> \<not> truthy (fst tween) \<and>
                                  d_type tData = TYPES_helicopter \<and>
                                  d_type sData1 = TYPES_superBunker \<and>
                                  collisionCheck sData1 tData (- xLookAhead))
               in if plain \<or> truthy (fst tween) \<or> superBunker then
                    (case co_hit options of
                       Some hit \<Rightarrow>
                         let g2 = hit (d_id tData) (co_source options) g1;
                             g3 = updateEnergy (d_id (objectData g2 tRef)) g2
                         in collisionCheckObject_loop updateEnergy options sRef xLookAhead rest
                              (Some True, g3,
                               calls @ [\<lparr>hc_id = d_id tData, hc_target = tData,
                                         hc_source = objectData g1 sRef\<rparr>])
                     | None \<Rightarrow>
                         collisionCheckObject_loop updateEnergy options sRef xLookAhead rest
                           (Some True, g1, calls))
                  else collisionCheckObject_loop updateEnergy options sRef xLookAhead rest
                         (foundHit, g1, calls)
             else collisionCheckObject_loop updateEnergy options sRef xLookAhead rest
                    (foundHit, g, calls))"

text \<open>JavaScript \<open>a || b || 16\<close> on numbers that may be \<open>undefined\<close>: 0 is falsy.\<close>

definition lookAheadOf :: "udata \<Rightarrow> real" where
  "lookAheadOf sData =
     (case d_xLookAhead sData of
        Some a \<Rightarrow> if a \<noteq> 0 then a
                  else (case d_widthOneThird sData of
                          Some w \<Rightarrow> if w \<noteq> 0 then w else 16
                        | None \<Rightarrow> 16)
      | None \<Rightarrow> (case d_widthOneThird sData of
                   Some w \<Rightarrow> if w \<noteq> 0 then w else 16
                 | None \<Rightarrow> 16))"

text \<open>
  \<open>collisionCheckObject(options)\<close>: the returned value, the game afterwards and the hit
  calls made. When \<open>options.source\<close> is a game object rather than an id or a \<open>data\<close>
  object, every field the function reads from it is \<open>undefined\<close>: the early return is
  not taken, every comparison of \<open>collisionCheck\<close> is against NaN and false, the tween
  loop runs zero times (\<open>0 < NaN\<close>), and no type test matches; so nothing is hit and
  \<open>foundHit\<close> stays \<open>undefined\<close>.
\<close>

definition collisionCheckObject ::
  "(string \<Rightarrow> game \<Rightarrow> game) \<Rightarrow> collision_options \<Rightarrow> game \<Rightarrow> bool option \<times> game \<times> hit_call list" where
  "collisionCheckObject updateEnergy options g =
     (case co_targets options of
        None \<Rightarrow> (Some False, g, [])
      | Some targets \<Rightarrow>
          (case co_source options of
             Some (SourceExports r) \<Rightarrow> (None, g, [])
           | src \<Rightarrow>
               (case (case src of
                        Some (SourceId s) \<Rightarrow> objectsById g s
                      | Some (SourceData r) \<Rightarrow> Some r
                      | _ \<Rightarrow> None) of
                  None \<Rightarrow> (Some False, g, [])
                | Some sRef \<Rightarrow>
                    let sData = objectData g sRef in
                    if d_dead sData \<or> d_isInert sData \<or> (d_expired sData \<and> \<not> d_hostile sData)
                    then (Some False, g, [])
                    else
                      let sData1 = (if co_useLookAhead options \<and> d_xLookAhead sData = None \<and>
                                       d_widthOneThird sData = None
                                    then sData\<lparr>d_widthOneThird := Some (d_width sData * 0.33)\<rparr>
                                    else sData);
                          g1 = g\<lparr>objectData := (objectData g)(sRef := sData1)\<rparr>;
                          xLookAhead = (if co_useLookAhead options
                                        then (if d_isEnemy sData1 then - lookAheadOf sData1
                                              else lookAheadOf sData1)
                                        else 0)
                      in collisionCheckObject_loop updateEnergy options sRef xLookAhead targets
                           (None, g1, []))))"

subsection \<open>Zones\<close>

text \<open>
  A collision spec: its options and its \<open>items\<close>, the \<open>{ type, group }\<close> pairs made by
  \<open>getTypes\<close>. An \<open>undefined\<close> type or group indexes the property \<open>'undefined'\<close>.
\<close>

record collision =
  c_options :: collision_options
  c_items :: "type_item list"

definition propertyKey :: "string option \<Rightarrow> string" where
  "propertyKey k = (case k of None \<Rightarrow> ''undefined'' | Some s \<Rightarrow> s)"

datatype outcome = Returned | Threw js_error

text \<open>
  The loop of \<open>collisionCheckZone\<close> over \<open>collision.items\<close>; the zone is a number or
  \<open>null\<close>. Indexing an absent zone or an absent group throws; an absent type is skipped.
  The zone's table is read through the game at every item: the source holds a reference
  to it, which sees what the hit callbacks change in place.
\<close>

fun collisionCheckZone_loop ::
  "(string \<Rightarrow> game \<Rightarrow> game) \<Rightarrow> collision_options \<Rightarrow> nat option \<Rightarrow> type_item list \<Rightarrow>
   game \<times> hit_call list \<Rightarrow> outcome \<times> collision_options \<times> game \<times> hit_call list" where
  "collisionCheckZone_loop updateEnergy options zone [] (g, calls) = (Returned, options, g, calls)"
| "collisionCheckZone_loop updateEnergy options zone (item # items) (g, calls) =
     (case (case zone of None \<Rightarrow> None | Some z \<Rightarrow> objectsByZone g z) of
        None \<Rightarrow> (Threw TypeError, options, g, calls)
      | Some zoneObjects \<Rightarrow>
          (case zoneObjects (propertyKey (t_group item)) of
             None \<Rightarrow> (Threw TypeError, options, g, calls)
           | Some byType \<Rightarrow>
               let options1 = options\<lparr>co_targets := byType (propertyKey (t_type item))\<rparr> in
               (case co_targets options1 of
                  None \<Rightarrow> collisionCheckZone_loop updateEnergy options1 zone items (g, calls)
                | Some targets \<Rightarrow>
                    let (r, g1, calls1) = collisionCheckObject updateEnergy options1 g in
                    collisionCheckZone_loop updateEnergy options1 zone items (g1, calls @ calls1))))"

definition collisionCheckZone ::
  "(string \<Rightarrow> game \<Rightarrow> game) \<Rightarrow> collision \<Rightarrow> nat option \<Rightarrow> game \<times> hit_call list \<Rightarrow>
   outcome \<times> collision \<times> game \<times> hit_call list" where
  "collisionCheckZone updateEnergy collision zone acc =
     (let (out, options1, g1, calls1) =
            collisionCheckZone_loop updateEnergy (c_options collision) zone (c_items collision) acc
      in (out, collision\<lparr>c_options := options1\<rparr>, g1, calls1))"

definition sourceIsFalsy :: "source option \<Rightarrow> bool" where
  "sourceIsFalsy src = (case src of None \<Rightarrow> True | Some (SourceId s) \<Rightarrow> s = [] | _ \<Rightarrow> False)"

text \<open>
  \<open>collisionTest(collision, exports)\<close>; \<open>exports\<close> is the reference of the source
  object. The final \<open>collision.targets = null\<close> sets a property nothing reads.
\<close>

definition collisionTest ::
  "(string \<Rightarrow> game \<Rightarrow> game) \<Rightarrow> collision \<Rightarrow> nat \<Rightarrow> game \<Rightarrow>
   outcome \<times> collision \<times> game \<times> hit_call list" where
  "collisionTest updateEnergy collision exports g =
     (if d_frontZone (objectData g exports) = None \<or> d_rearZone (objectData g exports) = None
      then (Returned, collision, g, [])
      else
        let collision1 =
              (if sourceIsFalsy (co_source (c_options collision))
               then collision\<lparr>c_options :=
                      (c_options collision)\<lparr>co_source := Some (SourceExports exports)\<rparr>\<rparr>
               else collision);
            (out1, collision2, g1, calls1) =
              collisionCheckZone updateEnergy collision1 (d_frontZone (objectData g exports)) (g, [])
        in (case out1 of
              Threw e \<Rightarrow> (out1, collision2, g1, calls1)
            | Returned \<Rightarrow>
                if d_multiZone (objectData g1 exports)
                then collisionCheckZone updateEnergy collision2 (d_rearZone (objectData g1 exports))
                       (g1, calls1)
                else (Returned, collision2, g1, calls1)))"

text \<open>
  What holds of a hit call: the id passed is the target's, the target is not excluded
  from collision, and it is alive or a dead turret met by an engineer (infantry with a
  role), which can reclaim it.
\<close>

definition hit_call_ok :: "hit_call \<Rightarrow> bool" where
  "hit_call_ok hc =
     (hc_id hc = d_id (hc_target hc) \<and>
      \<not> d_excludeFromCollision (hc_target hc) \<and>
      (\<not> d_dead (hc_target hc) \<or>
         (d_type (hc_target hc) = TYPES_turret \<and> d_type (hc_source hc) = TYPES_infantry \<and>
          d_role (hc_source hc) \<noteq> 0)))"

section \<open>Nearest-object query (core/logic.js)\<close>

text \<open>
  A game object is its \<open>data\<close> and, for the query, whether it has a \<open>radarItem\<close>.
  \<open>game.objects[type]\<close> is the array of the objects of a type.
\<close>

record gobj =
  g_data :: udata
  g_radarItem :: bool

record candidate =
  c_obj :: gobj
  c_totalDistance :: real

record nearest_options =
  no_ignoreNearGround :: bool
  no_useInFront :: bool
  no_items :: "type_item list option"
  no_ignoreIntersect :: bool
  no_getAll :: bool

text \<open>What \<open>getNearestObject\<close> returns: \<open>null\<close>, \<open>undefined\<close>, an id, or an array of ids.\<close>

datatype nearest_result = RNull | RUndefined | RId string | RIds "string list"

definition isFacingTarget :: "udata \<Rightarrow> udata \<Rightarrow> bool" where
  "isFacingTarget tData sData =
     (let tLeft = (d_x tData + d_width tData < d_x sData) in
      if d_isEnemy sData then
        (if tLeft \<and> d_flipped sData then False
         else if \<not> tLeft \<and> \<not> d_flipped sData then False
         else True)
      else
        (if tLeft \<and> \<not> d_flipped sData then False
         else if \<not> tLeft \<and> d_flipped sData then False
         else True))"

text \<open>
  The body of the inner loop: \<open>None\<close> where it reaches a \<open>continue\<close> or skips the push,
  otherwise the pushed \<open>{ obj, totalDistance }\<close>.
\<close>

definition candidateOf :: "nearest_options \<Rightarrow> udata \<Rightarrow> gobj \<Rightarrow> candidate option" where
  "candidateOf options sData obj =
     (let tData = g_data obj;
          isNearGround = (d_y sData \<ge> 340 \<and> \<not> no_ignoreNearGround options);
          distanceX = \<bar>\<bar>d_x tData\<bar> - \<bar>d_x sData\<bar>\<bar>;
          distanceY = \<bar>\<bar>d_y tData\<bar> - \<bar>d_y sData\<bar>\<bar>
      in if (d_isEnemy tData = d_isEnemy sData \<and> \<not> d_hostile tData) \<or> d_dead tData \<or>
            d_cloaked tData
         then None
         else if d_type tData = TYPES_balloon \<and> \<not> d_hostile tData then None
         else if d_type tData = TYPES_van \<and> distanceX > 512 \<and> \<not> g_radarItem obj then None
         else if \<not> no_useInFront options \<or> isFacingTarget tData sData then
           (if no_ignoreIntersect options \<and> collisionCheckX tData sData 0 then None
            else if distanceX > 3072 then None
            else if isNearGround \<and> distanceY > 40 then None
            else Some \<lparr>c_obj = obj, c_totalDistance = sqrt (distanceX ^ 2 + distanceY ^ 2)\<rparr>)
         else None)"

text \<open>The outer loop over the query's items; reading the length of an absent array throws.\<close>

fun localObjectsOf ::
  "(string \<rightharpoonup> gobj list) \<Rightarrow> nearest_options \<Rightarrow> udata \<Rightarrow> type_item list \<Rightarrow>
   js_error + candidate list" where
  "localObjectsOf objects options sData [] = Inr []"
| "localObjectsOf objects options sData (item # items) =
     (case objects (propertyKey (t_type item)) of
        None \<Rightarrow> Inl TypeError
      | Some itemArray \<Rightarrow>
          (case localObjectsOf objects options sData items of
             Inl e \<Rightarrow> Inl e
           | Inr others \<Rightarrow> Inr (List.map_filter (candidateOf options sData) itemArray @ others)))"

definition defaultNearestTypes :: string where
  "defaultNearestTypes =
     ''tank, van, missileLauncher, helicopter, bunker, balloon, smartMissile, turret, superBunker''"

text \<open>
  The candidates after \<open>localObjects.sort(utils.array.compare('totalDistance'))\<close>, that
  is, "after distance sorting".
\<close>

definition sortedLocalObjects ::
  "(string \<rightharpoonup> gobj list) \<Rightarrow> udata \<Rightarrow> nearest_options \<Rightarrow> js_error + candidate list" where
  "sortedLocalObjects objects sData options =
     (case (case no_items options of
              Some items \<Rightarrow> Inr items
            | None \<Rightarrow> getTypes (Some defaultNearestTypes)
                        \<lparr>o_group = None, o_exports = Some (Some sData)\<rparr>) of
        Inl e \<Rightarrow> Inl e
      | Inr items \<Rightarrow>
          (case localObjectsOf objects options sData items of
             Inl e \<Rightarrow> Inl e
           | Inr localObjects \<Rightarrow> Inr (sort_compare c_totalDistance localObjects)))"

text \<open>
  The rest of \<open>getNearestObject\<close>, from the emptiness test on: the reversal for an enemy
  helicopter, the two super-bunker rules, and the result.
\<close>

definition selectNearest :: "udata \<Rightarrow> nearest_options \<Rightarrow> candidate list \<Rightarrow> nearest_result" where
  "selectNearest sData options sortedObjects =
     (if sortedObjects = [] then (if \<not> no_getAll options then RNull else RIds [])
      else
        let localObjects = (if d_type sData = TYPES_helicopter \<and> d_isEnemy sData
                            then rev sortedObjects else sortedObjects)
        in (case localObjects of
              [] \<Rightarrow> (if no_getAll options then RIds [] else RUndefined)
            | first # others \<Rightarrow>
                if d_type sData = TYPES_helicopter \<and>
                   d_type (g_data (c_obj first)) = TYPES_superBunker \<and>
                   (others = [] \<or>
                    (case others of
                       [] \<Rightarrow> False
                     | second # _ \<Rightarrow> d_bottomAligned (g_data (c_obj second))))
                then RUndefined
                else
                  let remaining = (if d_type (g_data (c_obj first)) = TYPES_superBunker
                                   then others else localObjects)
                  in if no_getAll options
                     then RIds (map (\<lambda>c. d_id (g_data (c_obj c))) remaining)
                     else (case remaining of
                             [] \<Rightarrow> RUndefined
                           | best # _ \<Rightarrow> RId (d_id (g_data (c_obj best))))))"

definition getNearestObject ::
  "(string \<rightharpoonup> gobj list) \<Rightarrow> udata \<Rightarrow> nearest_options \<Rightarrow> js_error + nearest_result" where
  "getNearestObject objects sData options =
     (case sortedLocalObjects objects sData options of
        Inl e \<Rightarrow> Inl e
      | Inr sortedObjects \<Rightarrow> Inr (selectNearest sData options sortedObjects))"

section \<open>Concrete units used in the examples\<close>

definition example_unit :: udata where
  "example_unit =
     \<lparr>d_x = 0, d_y = 0, d_width = 1, d_height = 1, d_id = ''unit'', d_type = ''gunfire'',
      d_vX = 0, d_vY = 0, d_dead = False, d_isInert = False, d_expired = False,
      d_hostile = False, d_isEnemy = False, d_isNeutral = False,
      d_excludeFromCollision = False, d_role = 0, d_xLookAhead = None,
      d_widthOneThird = None, d_cloaked = False, d_bottomAligned = False,
      d_flipped = False, d_frontZone = None, d_rearZone = None, d_multiZone = False\<rparr>"




definition example_tank :: udata where
  "example_tank = example_unit\<lparr>d_id := ''tank-7'', d_type := TYPES_tank, d_isEnemy := False\<rparr>"

definition example_van :: udata where
  "example_van = example_unit\<lparr>d_id := ''van-3'', d_type := TYPES_van\<rparr>"

definition example_turret :: udata where
  "example_turret = example_unit\<lparr>d_id := ''turret-2'', d_type := TYPES_turret\<rparr>"

text \<open>
  An AI helicopter (width 48) at x = 100 in attack mode, firing with ammunition left,
  with three ammo votes this tick, in the order they are cast: its target, a tank at
  x = -100; an opposing helicopter at x = 400; and a turret at x = 160. Each is more
  than the helicopter's width and less than 320 away, as \<open>maybeFireAtTarget\<close> requires
  of a vote.
\<close>

definition example_heli :: heli_data where
  "example_heli =
     \<lparr>h_x = 100, h_vX = 9, h_vY = 0, h_vXMax = 12, h_vXMaxClipped = 8,
      h_useClippedSpeed = True, h_attackB = True, h_retaliation = False,
      h_firing = True, h_bombing = False, h_ammo = 64, h_bombs = 10,
      h_votes_ammo = 3, h_votes_bomb = 0,
      h_ammoTargets =
        [example_unit\<lparr>d_x := - 100, d_id := ''tank-8'', d_type := TYPES_tank, d_isEnemy := True\<rparr>,
         example_unit\<lparr>d_x := 400, d_id := ''helicopter-1'', d_type := TYPES_helicopter,
                      d_isEnemy := True\<rparr>,
         example_unit\<lparr>d_x := 160, d_id := ''turret-2'', d_type := TYPES_turret,
                      d_isEnemy := True\<rparr>],
      h_bombTargets = [], h_ammoTarget = None, h_fireRateCalls = [], h_bombRateCalls = [],
      h_retaliationTimers = []\<rparr>"

text \<open>A query for all groups without a source object, and one made by an enemy unit.\<close>

definition options_all :: getTypes_options where
  "options_all = \<lparr>o_group = Some ''all'', o_exports = None\<rparr>"

definition options_enemy_unit :: getTypes_options where
  "options_enemy_unit =
     \<lparr>o_group = None, o_exports = Some (Some (example_unit\<lparr>d_isEnemy := True\<rparr>))\<rparr>"

text \<open>
  An engineer (infantry with a role) standing on a dead enemy turret and a live enemy
  tank, in zone 4; a hit callback and an energy update that leave the game as it is.
\<close>

definition example_engineer :: udata where
  "example_engineer =
     example_unit\<lparr>d_id := ''infantry-1'', d_type := TYPES_infantry, d_role := 1,
                  d_frontZone := Some 4, d_rearZone := Some 3\<rparr>"

definition example_dead_turret :: udata where
  "example_dead_turret =
     example_unit\<lparr>d_id := ''turret-2'', d_type := TYPES_turret, d_isEnemy := True,
                  d_dead := True\<rparr>"

definition example_live_tank :: udata where
  "example_live_tank =
     example_unit\<lparr>d_id := ''tank-9'', d_type := TYPES_tank, d_isEnemy := True\<rparr>"

definition example_game :: game where
  "example_game =
     \<lparr>objectsById = [''infantry-1'' \<mapsto> 0, ''turret-2'' \<mapsto> 1, ''tank-9'' \<mapsto> 2],
      objectData = (\<lambda>r. example_unit)
                     (0 := example_engineer, 1 := example_dead_turret, 2 := example_live_tank),
      objectsByZone = [4 \<mapsto> [''enemy'' \<mapsto> [TYPES_turret \<mapsto> [''turret-2''],
                                               TYPES_tank \<mapsto> [''tank-9'']]]]\<rparr>"

definition example_hit :: "string \<Rightarrow> source option \<Rightarrow> game \<Rightarrow> game" where
  "example_hit targetId src g = g"

definition example_updateEnergy :: "string \<Rightarrow> game \<Rightarrow> game" where
  "example_updateEnergy targetId g = g"

definition example_options :: collision_options where
  "example_options =
     \<lparr>co_source = Some (SourceId ''infantry-1''), co_targets = Some [''turret-2''],
      co_useLookAhead = False, co_friendlyOnly = False, co_checkTweens = False,
      co_checkTweensRepositionOnHit = False, co_hit = Some example_hit\<rparr>"

definition example_collision :: collision where
  "example_collision =
     \<lparr>c_options = example_options\<lparr>co_targets := None\<rparr>,
      c_items = [\<lparr>t_type = Some TYPES_turret, t_group = Some ''enemy''\<rparr>]\<rparr>"

text \<open>
  A helicopter at x = 1000, y = 100, with a super bunker 50 away and an opposing,
  airborne helicopter 80 away at its height; and a bottom-aligned tank 80 away.
\<close>

definition nearest_source :: udata where
  "nearest_source =
     example_unit\<lparr>d_x := 1000, d_y := 100, d_id := ''helicopter-0'',
                  d_type := TYPES_helicopter\<rparr>"

definition nearest_superBunker :: gobj where
  "nearest_superBunker =
     \<lparr>g_data = example_unit\<lparr>d_x := 1050, d_y := 100, d_id := ''super-bunker-1'',
                           d_type := TYPES_superBunker, d_isEnemy := True,
                           d_bottomAligned := True\<rparr>,
      g_radarItem = True\<rparr>"

definition nearest_aircraft :: gobj where
  "nearest_aircraft =
     \<lparr>g_data = example_unit\<lparr>d_x := 1080, d_y := 100, d_id := ''helicopter-1'',
                           d_type := TYPES_helicopter, d_isEnemy := True\<rparr>,
      g_radarItem = True\<rparr>"

definition nearest_tank :: gobj where
  "nearest_tank =
     \<lparr>g_data = example_unit\<lparr>d_x := 1080, d_y := 100, d_id := ''tank-5'',
                           d_type := TYPES_tank, d_isEnemy := True, d_bottomAligned := True\<rparr>,
      g_radarItem = True\<rparr>"

definition nearest_items :: "type_item list" where
  "nearest_items =
     [\<lparr>t_type = Some TYPES_tank, t_group = Some ''enemy''\<rparr>,
      \<lparr>t_type = Some TYPES_helicopter, t_group = Some ''enemy''\<rparr>,
      \<lparr>t_type = Some TYPES_superBunker, t_group = Some ''enemy''\<rparr>]"

definition nearest_options0 :: nearest_options where
  "nearest_options0 =
     \<lparr>no_ignoreNearGround = False, no_useInFront = False, no_items = Some nearest_items,
      no_ignoreIntersect = False, no_getAll = False\<rparr>"

definition objects_with_aircraft :: "string \<rightharpoonup> gobj list" where
  "objects_with_aircraft =
     [TYPES_tank \<mapsto> [], TYPES_helicopter \<mapsto> [nearest_aircraft],
      TYPES_superBunker \<mapsto> [nearest_superBunker]]"

definition objects_with_tank :: "string \<rightharpoonup> gobj list" where
  "objects_with_tank =
     [TYPES_tank \<mapsto> [nearest_tank], TYPES_helicopter \<mapsto> [],
      TYPES_superBunker \<mapsto> [nearest_superBunker]]"

definition objects_bunker_only :: "string \<rightharpoonup> gobj list" where
  "objects_bunker_only =
     [TYPES_tank \<mapsto> [], TYPES_helicopter \<mapsto> [], TYPES_superBunker \<mapsto> [nearest_superBunker]]"

text \<open>The same scene seen by an enemy helicopter: the bunker and the tank are on the other side.\<close>

definition nearest_enemy_source :: udata where
  "nearest_enemy_source = nearest_source\<lparr>d_id := ''helicopter-2'', d_isEnemy := True\<rparr>"

definition objects_for_enemy :: "string \<rightharpoonup> gobj list" where
  "objects_for_enemy =
     [TYPES_tank \<mapsto> [nearest_tank\<lparr>g_data := (g_data nearest_tank)\<lparr>d_isEnemy := False\<rparr>\<rparr>],
      TYPES_helicopter \<mapsto> [],
      TYPES_superBunker \<mapsto>
        [nearest_superBunker\<lparr>g_data := (g_data nearest_superBunker)\<lparr>d_isEnemy := False\<rparr>\<rparr>]]"

section \<open>Properties of the overlap tests\<close>

text \<open>
  C9. For all rectangles \<open>r1\<close> and \<open>r2\<close>, \<open>collisionCheckWithOffsets(r1, r2, 0, 0)\<close> returns
  the same boolean as \<open>collisionCheck(r1, r2, 0)\<close>: at zero offset the variant used by
  sub-frame stepping is the plain overlap test.
\<close>

theorem collisionCheckWithOffsets_zero:
  "collisionCheckWithOffsets r1 r2 0 0 = collisionCheck r1 r2 0"
  by (simp add: collisionCheckWithOffsets_def collisionCheck_def)


subsection \<open>Tweening against the endpoint checks\<close>





section \<open>Properties of the bomb ledger\<close>


lemma getBombTargetID_turret:
  "d_type t = TYPES_turret \<Longrightarrow> getBombTargetID n (Some t) = d_id t"
  by (simp add: getBombTargetID_def)

lemma canBombTarget_free:
  assumes "bombsByTarget L k = None"
    and "\<And>u. t = Some u \<Longrightarrow> d_type u \<noteq> TYPES_turret \<Longrightarrow> getBombTargetID n t \<noteq> k"
  shows "bombsByTarget (snd (canBombTarget n t L)) k = None"
  using assms
  by (auto simp: canBombTarget_def Let_def split: option.splits if_splits)

lemma addBomb_other:
  "k \<noteq> getBombTargetID n t \<Longrightarrow> bombsByTarget (addBomb n t L) k = bombsByTarget L k"
  by (auto simp: addBomb_def Let_def timer_reset_def split: option.splits)

lemma addBomb_absent:
  "bombsByTarget L (getBombTargetID n t) = None \<Longrightarrow> addBomb n t L = L"
  by (simp add: addBomb_def Let_def)

lemma addBomb_free:
  "bombsByTarget L k = None \<Longrightarrow> bombsByTarget (addBomb n t L) k = None"
  by (auto simp: addBomb_def Let_def timer_reset_def split: option.splits)

lemma dropBomb_free:
  assumes "bombsByTarget L k = None"
    and "\<And>u. t = Some u \<Longrightarrow> d_type u \<noteq> TYPES_turret \<Longrightarrow> getBombTargetID n t \<noteq> k"
  shows "bombsByTarget (dropBomb n t L) k = None"
proof -
  have "bombsByTarget (snd (canBombTarget n t L)) k = None"
    using assms by (rule canBombTarget_free)
  then show ?thesis
    by (cases "canBombTarget n t L") (simp add: dropBomb_def addBomb_free)
qed

lemma removeBomb_free: "bombsByTarget L k = None \<Longrightarrow> bombsByTarget (removeBomb n t L) k = None"
  by (auto simp: removeBomb_def Let_def split: option.splits if_splits)

lemma clearBombWithDelay_free:
  "bombsByTarget L k = None \<Longrightarrow> bombsByTarget (clearBombWithDelay n t d L) k = None"
  by (auto simp: clearBombWithDelay_def Let_def setFrameTimeout_def split: option.splits if_splits)

lemma fold_delete_keys:
  "fold (\<lambda>t m. m(ft_key t := None)) ts m k = (if k \<in> ft_key ` set ts then None else m k)"
  by (induction ts arbitrary: m) auto

lemma tick_entries:
  "bombsByTarget (tick L) k =
     (if k \<in> ft_key ` set (filter timer_due (frameTimers L)) then None else bombsByTarget L k)"
  by (simp add: tick_def fold_delete_keys)

lemma tick_free: "bombsByTarget L k = None \<Longrightarrow> bombsByTarget (tick L) k = None"
  by (simp add: tick_entries)

lemma getBombTargetID_tank:
  "d_type t = TYPES_tank \<Longrightarrow> getBombTargetID n (Some t) = d_id t"
  by (simp add: getBombTargetID_def)

lemma tick_funpow_free:
  "bombsByTarget L k = None \<Longrightarrow> bombsByTarget ((tick ^^ m) L) k = None"
  by (induction m) (simp_all add: tick_free)

lemma tick_keeps_timer:
  assumes "t \<in> set (frameTimers L)" "\<not> timer_due t"
  shows "t\<lparr>ft_remaining := ft_remaining t - 1\<rparr> \<in> set (frameTimers (tick L))"
  using assms by (auto simp: tick_def)

lemma ticks_fire:
  assumes "t \<in> set (frameTimers L)" "ft_remaining t \<le> m" "0 < m"
  shows "bombsByTarget ((tick ^^ m) L) (ft_key t) = None"
  using assms
proof (induction m arbitrary: L t)
  case 0
  then show ?case by simp
next
  case (Suc m)
  have step: "(tick ^^ Suc m) L = (tick ^^ m) (tick L)"
    by (simp add: funpow_swap1)
  show ?case
  proof (cases "timer_due t")
    case True
    then have "bombsByTarget (tick L) (ft_key t) = None"
      using Suc.prems(1) by (auto simp: tick_entries)
    then show ?thesis unfolding step by (rule tick_funpow_free)
  next
    case False
    let ?t = "t\<lparr>ft_remaining := ft_remaining t - 1\<rparr>"
    have "?t \<in> set (frameTimers (tick L))"
      using Suc.prems(1) False by (rule tick_keeps_timer)
    moreover have "ft_remaining ?t \<le> m" "0 < m"
      using Suc.prems(2) False by (simp_all add: timer_due_def)
    ultimately have "bombsByTarget ((tick ^^ m) (tick L)) (ft_key ?t) = None"
      by (rule Suc.IH)
    then show ?thesis unfolding step by simp
  qed
qed

lemma full_canBombTarget:
  assumes "bombsByTarget L k = Some e" "bombLimit e \<le> bombCount e" "getBombTargetID n (Some t) = k"
    "d_type t \<noteq> TYPES_turret"
  shows "fst (canBombTarget n (Some t) L) = None"
  using assms by (simp add: canBombTarget_def Let_def)

lemma canBombTarget_keeps:
  assumes "bombsByTarget L k = Some e"
  shows "bombsByTarget (snd (canBombTarget n u L)) k = Some e"
  using assms by (auto simp: canBombTarget_def Let_def split: option.splits)

lemma addBomb_full:
  assumes "bombsByTarget L k = Some e" "bombLimit e \<le> bombCount e"
  shows "\<exists>e'. bombsByTarget (addBomb n u L) k = Some e' \<and> bombLimit e' \<le> bombCount e'"
  using assms by (auto simp: addBomb_def Let_def timer_reset_def split: option.splits)

lemma removeBomb_other:
  "getBombTargetID n u \<noteq> k \<Longrightarrow> bombsByTarget (removeBomb n u L) k = bombsByTarget L k"
  by (auto simp: removeBomb_def Let_def split: option.splits)

lemma clearBombWithDelay_full:
  assumes "bombsByTarget L k = Some e" "bombLimit e \<le> bombCount e"
  shows "\<exists>e'. bombsByTarget (clearBombWithDelay n u d L) k = Some e' \<and> bombLimit e' \<le> bombCount e'"
  using assms by (auto simp: clearBombWithDelay_def Let_def setFrameTimeout_def split: option.splits)

lemma apply_op_full:
  assumes "bombsByTarget L k = Some e" "bombLimit e \<le> bombCount e" "\<not> lowers n k op L"
  shows "\<exists>e'. bombsByTarget (apply_op n op L) k = Some e' \<and> bombLimit e' \<le> bombCount e'"
proof (cases op)
  case (CanBombTarget u)
  then show ?thesis using assms by (simp add: canBombTarget_keeps)
next
  case (AddBomb u)
  then show ?thesis using assms by (simp add: addBomb_full)
next
  case (DropBomb u)
  have "bombsByTarget (snd (canBombTarget n u L)) k = Some e"
    using assms(1) by (rule canBombTarget_keeps)
  then show ?thesis using DropBomb assms(2)
    by (cases "canBombTarget n u L") (auto simp: dropBomb_def addBomb_full)
next
  case (RemoveBomb u)
  then show ?thesis using assms by (simp add: removeBomb_other)
next
  case (ClearBombWithDelay u d)
  then show ?thesis using assms by (simp add: clearBombWithDelay_full)
next
  case Tick
  then show ?thesis using assms by (simp add: tick_entries)
qed

lemma run_ops_full:
  assumes "bombsByTarget L k = Some e" "bombLimit e \<le> bombCount e" "quiet n k ops L"
  shows "\<exists>e'. bombsByTarget (run_ops n ops L) k = Some e' \<and> bombLimit e' \<le> bombCount e'"
  using assms
proof (induction ops arbitrary: L e)
  case Nil
  then show ?case by simp
next
  case (Cons op ops)
  from apply_op_full [OF Cons.prems(1,2)] Cons.prems(3)
  obtain e' where "bombsByTarget (apply_op n op L) k = Some e'" "bombLimit e' \<le> bombCount e'"
    by auto
  then show ?case using Cons.IH Cons.prems(3) by simp
qed

lemma bombRound_tank:
  assumes "d_type t = TYPES_tank"
    and "bombsByTarget L (d_id t) = None \<and> c = 0 \<or>
         bombsByTarget L (d_id t) = Some \<lparr>bombCount = c, bombLimit = 3, timer = None\<rparr>"
    and "c < 3"
  shows "fst (canBombTarget n (Some t) L) = Some True"
    and "bombsByTarget (bombRound n (Some t) L) (d_id t)
           = Some \<lparr>bombCount = c + 1, bombLimit = 3, timer = None\<rparr>"
  using assms
  by (auto simp: bombRound_def canBombTarget_def addBomb_def getBombTargetID_def Let_def)

lemma dropBomb_other:
  "k \<noteq> getBombTargetID n t \<Longrightarrow> bombsByTarget (dropBomb n t L) k = bombsByTarget L k"
  by (cases t)
     (auto simp: dropBomb_def canBombTarget_def addBomb_def timer_reset_def Let_def
           split: option.splits if_splits)

lemma dropBomb_absent:
  assumes "t = None \<or> (\<exists>u. t = Some u \<and> d_type u = TYPES_turret \<and> bombsByTarget L (d_id u) = None)"
  shows "dropBomb n t L = L"
  using assms
  by (auto simp: dropBomb_def canBombTarget_def truthy_def addBomb_absent getBombTargetID_turret)

lemma dropBomb_key:
  assumes "d_type u \<noteq> TYPES_turret"
  shows "\<exists>e'. bombsByTarget (dropBomb n (Some u) L) (getBombTargetID n (Some u)) = Some e' \<and>
           (case bombsByTarget L (getBombTargetID n (Some u)) of
              None \<Rightarrow> bombCount e' = 1 \<and>
                       bombLimit e' = (if d_type u = TYPES_tank \<or> d_type u = TYPES_helicopter
                                       then 3 else 1)
            | Some e \<Rightarrow> bombLimit e' = bombLimit e \<and>
                        bombCount e' = (if bombLimit e \<le> bombCount e then bombCount e
                                        else bombCount e + 1))"
  using assms
  by (auto simp: dropBomb_def canBombTarget_def addBomb_def timer_reset_def truthy_def Let_def
           split: option.splits)

lemma dropBomb_within:
  assumes inv: "\<forall>k e. bombsByTarget L k = Some e \<longrightarrow> entry_within n all k e"
    and mem: "DropBomb t \<in> set all"
    and tur: "\<And>u. t = Some u \<Longrightarrow> d_type u = TYPES_turret \<Longrightarrow> bombsByTarget L (d_id u) = None"
  shows "\<forall>k e. bombsByTarget (dropBomb n t L) k = Some e \<longrightarrow> entry_within n all k e"
proof (cases "t = None \<or> (\<exists>u. t = Some u \<and> d_type u = TYPES_turret)")
  case True
  then have "dropBomb n t L = L"
    using tur by (intro dropBomb_absent) auto
  then show ?thesis using inv by simp
next
  case False
  then obtain u where u: "t = Some u" "d_type u \<noteq> TYPES_turret" by auto
  let ?k0 = "getBombTargetID n (Some u)"
  show ?thesis
  proof (intro allI impI)
    fix k e assume e: "bombsByTarget (dropBomb n t L) k = Some e"
    show "entry_within n all k e"
    proof (cases "k = ?k0")
      case False
      then show ?thesis using e inv u by (simp add: dropBomb_other)
    next
      case True
      from dropBomb_key [OF u(2), of n L] e u True
      have c: "case bombsByTarget L ?k0 of
              None \<Rightarrow> bombCount e = 1 \<and>
                       bombLimit e = (if d_type u = TYPES_tank \<or> d_type u = TYPES_helicopter
                                       then 3 else 1)
            | Some e0 \<Rightarrow> bombLimit e = bombLimit e0 \<and>
                        bombCount e = (if bombLimit e0 \<le> bombCount e0 then bombCount e0
                                        else bombCount e0 + 1)"
        by auto
      show ?thesis
      proof (cases "bombsByTarget L ?k0")
        case None
        then show ?thesis using c mem u True
          by (auto simp: entry_within_def)
      next
        case (Some e0)
        then have "entry_within n all ?k0 e0" using inv by simp
        then show ?thesis using c Some True
          by (auto simp: entry_within_def)
      qed
    qed
  qed
qed

lemma removeBomb_within:
  assumes inv: "\<forall>k e. bombsByTarget L k = Some e \<longrightarrow> entry_within n all k e"
  shows "\<forall>k e. bombsByTarget (removeBomb n t L) k = Some e \<longrightarrow> entry_within n all k e"
proof (intro allI impI)
  fix k e assume e: "bombsByTarget (removeBomb n t L) k = Some e"
  show "entry_within n all k e"
  proof (cases "bombsByTarget L (getBombTargetID n t)")
    case None
    then show ?thesis using e inv by (simp add: removeBomb_def)
  next
    case (Some e0)
    then have e0: "entry_within n all (getBombTargetID n t) e0" using inv by simp
    show ?thesis
    proof (cases "k = getBombTargetID n t")
      case False
      then show ?thesis using e inv by (simp add: removeBomb_other)
    next
      case True
      then have "e = e0\<lparr>bombCount := max 0 (bombCount e0 - 1)\<rparr> \<and> max 0 (bombCount e0 - 1) \<noteq> 0"
        using e Some by (auto simp: removeBomb_def Let_def split: if_splits)
      then show ?thesis using e0 True
        by (auto simp: entry_within_def)
    qed
  qed
qed

lemma clearBombWithDelay_within:
  assumes inv: "\<forall>k e. bombsByTarget L k = Some e \<longrightarrow> entry_within n all k e"
  shows "\<forall>k e. bombsByTarget (clearBombWithDelay n t d L) k = Some e \<longrightarrow> entry_within n all k e"
proof (intro allI impI)
  fix k e assume e: "bombsByTarget (clearBombWithDelay n t d L) k = Some e"
  then obtain e0 where "bombsByTarget L k = Some e0" "bombCount e = bombCount e0"
    "bombLimit e = bombLimit e0"
    by (auto simp: clearBombWithDelay_def Let_def setFrameTimeout_def
        split: option.splits if_splits)
  then show "entry_within n all k e"
    using inv by (auto simp: entry_within_def)
qed

lemma tick_within:
  assumes inv: "\<forall>k e. bombsByTarget L k = Some e \<longrightarrow> entry_within n all k e"
  shows "\<forall>k e. bombsByTarget (tick L) k = Some e \<longrightarrow> entry_within n all k e"
  using inv by (auto simp: tick_entries split: if_splits)

lemma apply_op_within:
  assumes inv: "\<forall>k e. bombsByTarget L k = Some e \<longrightarrow> entry_within n all k e"
    and free: "\<forall>k\<in>K. bombsByTarget L k = None"
    and mem: "op \<in> set all"
    and bare: "\<not> is_AddBomb op" "\<not> is_CanBombTarget op"
    and tur: "\<And>u. op_target op = Some u \<Longrightarrow> d_type u = TYPES_turret \<Longrightarrow> d_id u \<in> K"
    and oth: "\<And>u. op_target op = Some u \<Longrightarrow> d_type u \<noteq> TYPES_turret
                 \<Longrightarrow> getBombTargetID n (Some u) \<notin> K"
  shows "(\<forall>k e. bombsByTarget (apply_op n op L) k = Some e \<longrightarrow> entry_within n all k e) \<and>
         (\<forall>k\<in>K. bombsByTarget (apply_op n op L) k = None)"
proof (cases op)
  case (CanBombTarget t)
  then show ?thesis using bare by simp
next
  case (AddBomb t)
  then show ?thesis using bare by simp
next
  case (DropBomb t)
  have "\<forall>k e. bombsByTarget (dropBomb n t L) k = Some e \<longrightarrow> entry_within n all k e"
    using inv mem free tur DropBomb by (intro dropBomb_within) auto
  moreover have "\<forall>k\<in>K. bombsByTarget (dropBomb n t L) k = None"
    using free oth DropBomb by (auto intro!: dropBomb_free)
  ultimately show ?thesis using DropBomb by simp
next
  case (RemoveBomb t)
  then show ?thesis using removeBomb_within [OF inv] free by (simp add: removeBomb_free)
next
  case (ClearBombWithDelay t d)
  then show ?thesis using clearBombWithDelay_within [OF inv] free
    by (simp add: clearBombWithDelay_free)
next
  case Tick
  then show ?thesis using tick_within [OF inv] free by (simp add: tick_free)
qed

lemma run_ops_within:
  assumes "\<forall>k e. bombsByTarget L k = Some e \<longrightarrow> entry_within n all k e"
    and "\<forall>k\<in>K. bombsByTarget L k = None"
    and "set ops \<subseteq> set all"
    and "\<forall>op\<in>set ops. \<not> is_AddBomb op \<and> \<not> is_CanBombTarget op"
    and "\<forall>op\<in>set ops. \<forall>u. op_target op = Some u \<longrightarrow>
           (d_type u = TYPES_turret \<longrightarrow> d_id u \<in> K) \<and>
           (d_type u \<noteq> TYPES_turret \<longrightarrow> getBombTargetID n (Some u) \<notin> K)"
  shows "\<forall>k e. bombsByTarget (run_ops n ops L) k = Some e \<longrightarrow> entry_within n all k e"
  using assms
proof (induction ops arbitrary: L)
  case Nil
  then show ?case by simp
next
  case (Cons op ops)
  have "(\<forall>k e. bombsByTarget (apply_op n op L) k = Some e \<longrightarrow> entry_within n all k e) \<and>
        (\<forall>k\<in>K. bombsByTarget (apply_op n op L) k = None)"
    using Cons.prems by (intro apply_op_within) auto
  then show ?case using Cons.IH [of "apply_op n op L"] Cons.prems by simp
qed

text \<open>
  C3 as stated fails on both counts, for calls made on their own. \<open>canBombTarget\<close>
  creates the entry with count 0 (\<open>addBomb\<close> only increments an entry that exists), so
  an entry with count 0 exists after a \<open>canBombTarget\<close> on a tank that no \<open>addBomb\<close>
  follows; and \<open>addBomb\<close> itself does not look at the limit, so two \<open>addBomb\<close> calls
  after one \<open>canBombTarget\<close> on a van leave count 2 under limit 1.
\<close>

theorem ledger_invariant_counterexample:
  "bombsByTarget (run_ops False [CanBombTarget (Some example_tank)] empty_ledger) ''tank-7''
     = Some \<lparr>bombCount = 0, bombLimit = 3, timer = None\<rparr> \<and>
   bombsByTarget (run_ops False [CanBombTarget (Some example_van), AddBomb (Some example_van),
                                AddBomb (Some example_van)] empty_ledger) ''van-3''
     = Some \<lparr>bombCount = 2, bombLimit = 1, timer = None\<rparr>"
  by (simp add: canBombTarget_def addBomb_def example_tank_def example_van_def example_unit_def
      empty_ledger_def getBombTargetID_def Let_def)

text \<open>
  C3, amended. Starting from the empty ledger, after every finite sequence of bomb drops
  as the helicopter makes them (\<open>canBombTarget\<close>, directly followed by \<open>addBomb\<close> exactly
  when it returned true), \<open>removeBomb\<close> and \<open>clearBombWithDelay\<close> calls and timer ticks,
  with turret ids distinct from the ledger keys of other units, every entry present in
  the ledger has count at least 1 and at most its limit, and its limit is that of a
  target a bomb was dropped on under its key: 3 for a tank or a helicopter, 1 otherwise.
\<close>

theorem ledger_bound_guarded:
  assumes bare: "\<forall>op\<in>set ops. \<not> is_AddBomb op \<and> \<not> is_CanBombTarget op"
    and apart: "turret_keys_apart bNapalm ops"
  shows "\<forall>k e. bombsByTarget (run_ops bNapalm ops empty_ledger) k = Some e
           \<longrightarrow> entry_within bNapalm ops k e"
proof -
  define K where "K = {d_id t | t. Some t \<in> op_target ` set ops \<and> d_type t = TYPES_turret}"
  have "\<forall>op\<in>set ops. \<forall>u. op_target op = Some u \<longrightarrow>
           (d_type u = TYPES_turret \<longrightarrow> d_id u \<in> K) \<and>
           (d_type u \<noteq> TYPES_turret \<longrightarrow> getBombTargetID bNapalm (Some u) \<notin> K)"
  proof (intro ballI allI impI conjI)
    fix op u assume "op \<in> set ops" "op_target op = Some u" "d_type u = TYPES_turret"
    then show "d_id u \<in> K" unfolding K_def by force
  next
    fix op u assume a: "op \<in> set ops" "op_target op = Some u" "d_type u \<noteq> TYPES_turret"
    show "getBombTargetID bNapalm (Some u) \<notin> K"
    proof
      assume "getBombTargetID bNapalm (Some u) \<in> K"
      then obtain t op' where t: "op' \<in> set ops" "op_target op' = Some t" "d_type t = TYPES_turret"
        "getBombTargetID bNapalm (Some u) = d_id t"
        unfolding K_def by force
      from apart t(1) a(1) have "case (op_target op', op_target op) of
          (Some t, Some u) \<Rightarrow> d_type t = TYPES_turret \<and> d_type u \<noteq> TYPES_turret
              \<longrightarrow> d_id t \<noteq> getBombTargetID bNapalm (Some u) | _ \<Rightarrow> True"
        unfolding turret_keys_apart_def by blast
      then show False using t a by simp
    qed
  qed
  moreover have "\<forall>k e. bombsByTarget empty_ledger k = Some e \<longrightarrow> entry_within bNapalm ops k e"
    "\<forall>k\<in>K. bombsByTarget empty_ledger k = None"
    by (simp_all add: empty_ledger_def)
  ultimately show ?thesis using bare by (intro run_ops_within [where K = K]) auto
qed

theorem ledger_bound_guarded_witness:
  "\<exists>e1 e2.
      bombsByTarget
        (run_ops False [DropBomb (Some example_van), DropBomb (Some example_van),
           DropBomb (Some example_tank), DropBomb (Some example_tank),
           DropBomb (Some example_turret), RemoveBomb (Some example_tank), Tick]
           empty_ledger) ''van-3'' = Some e1 \<and>
      bombCount e1 = 1 \<and> bombLimit e1 = 1 \<and>
      bombsByTarget
        (run_ops False [DropBomb (Some example_van), DropBomb (Some example_van),
           DropBomb (Some example_tank), DropBomb (Some example_tank),
           DropBomb (Some example_turret), RemoveBomb (Some example_tank), Tick]
           empty_ledger) ''tank-7'' = Some e2 \<and>
      bombCount e2 = 1 \<and> bombLimit e2 = 3 \<and>
      entry_within False [DropBomb (Some example_van), DropBomb (Some example_van),
           DropBomb (Some example_tank), DropBomb (Some example_tank),
           DropBomb (Some example_turret), RemoveBomb (Some example_tank), Tick] ''van-3'' e1 \<and>
      entry_within False [DropBomb (Some example_van), DropBomb (Some example_van),
           DropBomb (Some example_tank), DropBomb (Some example_tank),
           DropBomb (Some example_turret), RemoveBomb (Some example_tank), Tick] ''tank-7'' e2"
proof -
  let ?ops = "[DropBomb (Some example_van), DropBomb (Some example_van),
           DropBomb (Some example_tank), DropBomb (Some example_tank),
           DropBomb (Some example_turret), RemoveBomb (Some example_tank), Tick]"
  have a: "\<forall>op\<in>set ?ops. \<not> is_AddBomb op \<and> \<not> is_CanBombTarget op"
    by simp
  have b: "turret_keys_apart False ?ops"
    by (simp add: turret_keys_apart_def getBombTargetID_def example_van_def example_turret_def
        example_tank_def example_unit_def)
  have van: "bombsByTarget (run_ops False ?ops empty_ledger) ''van-3''
                   = Some \<lparr>bombCount = 1, bombLimit = 1, timer = None\<rparr>"
    and tank: "bombsByTarget (run_ops False ?ops empty_ledger) ''tank-7''
                   = Some \<lparr>bombCount = 1, bombLimit = 3, timer = None\<rparr>"
    by (simp_all add: dropBomb_def canBombTarget_def addBomb_def removeBomb_def tick_def
        truthy_def getBombTargetID_def Let_def example_van_def example_turret_def
        example_tank_def example_unit_def empty_ledger_def)
  have "entry_within False ?ops ''van-3'' \<lparr>bombCount = 1, bombLimit = 1, timer = None\<rparr>"
    "entry_within False ?ops ''tank-7'' \<lparr>bombCount = 1, bombLimit = 3, timer = None\<rparr>"
    using ledger_bound_guarded [OF a b] van tank by blast+
  then show ?thesis
    using van tank by simp
qed

text \<open>
  C4. For a tank target with no ledger entry yet: three \<open>canBombTarget\<close>-then-\<open>addBomb\<close>
  rounds each succeed; the fourth \<open>canBombTarget\<close> is refused (the at-capacity return is
  a bare \<open>return;\<close>, a falsy \<open>undefined\<close>); it stays refused after every sequence of
  calls and ticks in which no \<open>removeBomb\<close> on the target and no expiring timer for it
  occurs; and it succeeds again after a \<open>removeBomb\<close>, or once a \<open>clearBombWithDelay\<close>
  timer has run out.
\<close>

theorem tank_fourth_bomb_refused:
  assumes tank: "d_type t = TYPES_tank"
    and fresh: "bombsByTarget L0 (d_id t) = None"
    and L1: "L1 = bombRound n (Some t) L0"
    and L2: "L2 = bombRound n (Some t) L1"
    and L3: "L3 = bombRound n (Some t) L2"
    and q: "quiet n (d_id t) ops L3"
    and d: "0 < delay"
  shows "fst (canBombTarget n (Some t) L0) = Some True \<and>
         fst (canBombTarget n (Some t) L1) = Some True \<and>
         fst (canBombTarget n (Some t) L2) = Some True \<and>
         \<not> truthy (fst (canBombTarget n (Some t) L3)) \<and>
         \<not> truthy (fst (canBombTarget n (Some t) (run_ops n ops L3))) \<and>
         truthy (fst (canBombTarget n (Some t) (removeBomb n (Some t) L3))) \<and>
         truthy (fst (canBombTarget n (Some t)
                   ((tick ^^ delay) (clearBombWithDelay n (Some t) delay L3))))"
proof -
  have key: "getBombTargetID n (Some t) = d_id t" and nt: "d_type t \<noteq> TYPES_turret"
    using tank by (simp_all add: getBombTargetID_tank)
  have r1: "fst (canBombTarget n (Some t) L0) = Some True"
    and e1: "bombsByTarget L1 (d_id t) = Some \<lparr>bombCount = 1, bombLimit = 3, timer = None\<rparr>"
    using bombRound_tank [OF tank, of L0 0 n] fresh L1 by simp_all
  have r2: "fst (canBombTarget n (Some t) L1) = Some True"
    and e2: "bombsByTarget L2 (d_id t) = Some \<lparr>bombCount = 2, bombLimit = 3, timer = None\<rparr>"
    using bombRound_tank [OF tank, of L1 1 n] e1 L2 by simp_all
  have r3: "fst (canBombTarget n (Some t) L2) = Some True"
    and e3: "bombsByTarget L3 (d_id t) = Some \<lparr>bombCount = 3, bombLimit = 3, timer = None\<rparr>"
    using bombRound_tank [OF tank, of L2 2 n] e2 L3 by simp_all
  have r4: "\<not> truthy (fst (canBombTarget n (Some t) L3))"
    using full_canBombTarget [OF e3 _ key nt] by (simp add: truthy_def)
  obtain e' where "bombsByTarget (run_ops n ops L3) (d_id t) = Some e'" "bombLimit e' \<le> bombCount e'"
    using run_ops_full [OF e3 _ q] by auto
  then have r5: "\<not> truthy (fst (canBombTarget n (Some t) (run_ops n ops L3)))"
    using full_canBombTarget [OF _ _ key nt] by (simp add: truthy_def)
  have r6: "truthy (fst (canBombTarget n (Some t) (removeBomb n (Some t) L3)))"
    using e3 key nt by (simp add: removeBomb_def canBombTarget_def Let_def truthy_def)
  let ?C = "clearBombWithDelay n (Some t) delay L3"
  have "\<lparr>ft_handle = nextTimer L3, ft_key = d_id t, ft_remaining = delay\<rparr> \<in> set (frameTimers ?C)"
    using e3 key by (simp add: clearBombWithDelay_def setFrameTimeout_def Let_def)
  from ticks_fire [OF this, of delay] d
  have "bombsByTarget ((tick ^^ delay) ?C) (d_id t) = None" by simp
  then have r7: "truthy (fst (canBombTarget n (Some t) ((tick ^^ delay) ?C)))"
    using key tank by (simp add: canBombTarget_def Let_def truthy_def)
  show ?thesis using r1 r2 r3 r4 r5 r6 r7 by blast
qed

theorem tank_fourth_bomb_refused_witness:
  "d_type example_tank = TYPES_tank \<and>
   bombsByTarget empty_ledger (d_id example_tank) = None \<and>
   quiet False (d_id example_tank)
     [CanBombTarget (Some example_tank), AddBomb (Some example_van),
      ClearBombWithDelay (Some example_tank) 3, Tick, RemoveBomb (Some example_van)]
     (bombRound False (Some example_tank) (bombRound False (Some example_tank)
        (bombRound False (Some example_tank) empty_ledger))) \<and>
   (0::nat) < 2 \<and>
   \<not> truthy (fst (canBombTarget False (Some example_tank)
        (bombRound False (Some example_tank) (bombRound False (Some example_tank)
           (bombRound False (Some example_tank) empty_ledger))))) \<and>
   truthy (fst (canBombTarget False (Some example_tank)
        (removeBomb False (Some example_tank)
           (bombRound False (Some example_tank) (bombRound False (Some example_tank)
              (bombRound False (Some example_tank) empty_ledger))))))"
proof -
  have q: "quiet False (d_id example_tank)
     [CanBombTarget (Some example_tank), AddBomb (Some example_van),
      ClearBombWithDelay (Some example_tank) 3, Tick, RemoveBomb (Some example_van)]
     (bombRound False (Some example_tank) (bombRound False (Some example_tank)
        (bombRound False (Some example_tank) empty_ledger)))"
    by (simp add: bombRound_def canBombTarget_def addBomb_def clearBombWithDelay_def
        setFrameTimeout_def getBombTargetID_def timer_due_def Let_def
        example_tank_def example_van_def example_unit_def empty_ledger_def)
  have t: "d_type example_tank = TYPES_tank"
    and f: "bombsByTarget empty_ledger (d_id example_tank) = None"
    by (simp_all add: example_tank_def example_unit_def empty_ledger_def)
  show ?thesis
    using tank_fourth_bomb_refused [OF t f refl refl refl q, where delay = 2] q t f by simp
qed

text \<open>
  C10. \<open>removeBomb\<close> for a target without an entry changes nothing, and so does
  \<open>addBomb\<close> (it creates no entry). For an existing entry \<open>removeBomb\<close> sets the count to
  \<open>max 0 (count - 1)\<close> and deletes the entry exactly when that is 0, so no entry is left
  with a count below 1 under the key; the other keys are untouched. Neither function
  has a failing branch.
\<close>

theorem ledger_removeBomb_addBomb:
  "(bombsByTarget L (getBombTargetID n t) = None \<longrightarrow>
      removeBomb n t L = L \<and> addBomb n t L = L) \<and>
   (\<forall>e. bombsByTarget L (getBombTargetID n t) = Some e \<longrightarrow>
      bombsByTarget (removeBomb n t L) (getBombTargetID n t) =
        (if max 0 (bombCount e - 1) = 0 then None
         else Some (e\<lparr>bombCount := max 0 (bombCount e - 1)\<rparr>))) \<and>
   (\<forall>e'. bombsByTarget (removeBomb n t L) (getBombTargetID n t) = Some e' \<longrightarrow>
      0 < bombCount e') \<and>
   (\<forall>k. k \<noteq> getBombTargetID n t \<longrightarrow>
      bombsByTarget (removeBomb n t L) k = bombsByTarget L k) \<and>
   dom (bombsByTarget (addBomb n t L)) = dom (bombsByTarget L)"
proof (intro conjI allI impI)
  assume "bombsByTarget L (getBombTargetID n t) = None"
  then show "removeBomb n t L = L" "addBomb n t L = L"
    by (simp_all add: removeBomb_def addBomb_def)
next
  fix e assume "bombsByTarget L (getBombTargetID n t) = Some e"
  then show "bombsByTarget (removeBomb n t L) (getBombTargetID n t) =
        (if max 0 (bombCount e - 1) = 0 then None
         else Some (e\<lparr>bombCount := max 0 (bombCount e - 1)\<rparr>))"
    by (simp add: removeBomb_def Let_def)
next
  fix e' assume "bombsByTarget (removeBomb n t L) (getBombTargetID n t) = Some e'"
  then show "0 < bombCount e'"
    by (auto simp: removeBomb_def Let_def split: option.splits if_splits)
next
  fix k assume "k \<noteq> getBombTargetID n t"
  then show "bombsByTarget (removeBomb n t L) k = bombsByTarget L k"
    by (auto simp: removeBomb_def Let_def split: option.splits)
next
  show "dom (bombsByTarget (addBomb n t L)) = dom (bombsByTarget L)"
    by (auto simp: addBomb_def Let_def timer_reset_def split: option.splits if_splits)
qed

theorem ledger_removeBomb_addBomb_witness:
  "bombsByTarget empty_ledger (getBombTargetID False (Some example_van)) = None \<and>
   removeBomb False (Some example_van) empty_ledger = empty_ledger \<and>
   addBomb False (Some example_van) empty_ledger = empty_ledger \<and>
   bombsByTarget (bombRound False (Some example_tank) empty_ledger)
     (getBombTargetID False (Some example_tank))
     = Some \<lparr>bombCount = 1, bombLimit = 3, timer = None\<rparr> \<and>
   bombsByTarget (removeBomb False (Some example_tank)
                    (bombRound False (Some example_tank) empty_ledger))
     (getBombTargetID False (Some example_tank)) = None"
  using ledger_removeBomb_addBomb [of empty_ledger False "Some example_van"]
    ledger_removeBomb_addBomb [of "bombRound False (Some example_tank) empty_ledger" False
      "Some example_tank"]
  by (simp add: bombRound_def canBombTarget_def addBomb_def getBombTargetID_def Let_def
      example_tank_def example_van_def example_unit_def empty_ledger_def)

section \<open>Properties of the helicopter AI\<close>

text \<open>
  C6 fails on the code. \<open>maybeEngageRetaliationMode\<close> never sets
  \<open>data.targeting.retaliation\<close>: whatever the configuration and the state, the flag after
  the call is the flag before it, and the velocity clamp gives the same result. When
  the mode is triggered (\<open>killCopterB\<close> set, attack mode on, retaliation not active) the
  only effect is the 30000 timer that would clear the flag.
\<close>

theorem maybeEngageRetaliationMode_flag_unchanged:
  "h_retaliation (maybeEngageRetaliationMode killCopterB data) = h_retaliation data \<and>
   h_vX (throttleVelocity (maybeEngageRetaliationMode killCopterB data))
     = h_vX (throttleVelocity data) \<and>
   h_vY (throttleVelocity (maybeEngageRetaliationMode killCopterB data))
     = h_vY (throttleVelocity data)"
  by (simp add: maybeEngageRetaliationMode_def throttleVelocity_def Let_def)

text \<open>
  At the failing input: an AI helicopter in attack mode, retaliation not active, with
  clipped speed in use (maxima 12 and 8, velocity 9). After the call the flag is still
  false, the timer is pending, the clamp still uses half of the clipped maximum
  (8 / 2 = 4, not 12 / 2 = 6), and the flag is false after a tick as well.
\<close>

theorem maybeEngageRetaliationMode_flag_stays_false:
  "h_attackB example_heli \<and> \<not> h_retaliation example_heli \<and>
   \<not> h_retaliation (maybeEngageRetaliationMode True example_heli) \<and>
   h_retaliationTimers (maybeEngageRetaliationMode True example_heli) = [30000] \<and>
   h_vX (throttleVelocity (maybeEngageRetaliationMode True example_heli)) = 4 \<and>
   \<not> h_retaliation (retaliation_tick (maybeEngageRetaliationMode True example_heli))"
proof -
  have "h_retaliationTimers (maybeEngageRetaliationMode True example_heli) = [30000]"
    by (simp add: maybeEngageRetaliationMode_def retaliationModeDuration_def example_heli_def)
  moreover have "h_vX (throttleVelocity example_heli) = 4"
    by (simp add: throttleVelocity_def example_heli_def Let_def)
  moreover have "h_attackB example_heli \<and> \<not> h_retaliation example_heli"
    by (simp add: example_heli_def)
  moreover have "\<not> h_retaliation (retaliation_tick (maybeEngageRetaliationMode True example_heli))"
    by (simp add: maybeEngageRetaliationMode_def retaliation_tick_def
        retaliationModeDuration_def example_heli_def Let_def)
  ultimately show ?thesis
    using maybeEngageRetaliationMode_flag_unchanged [of True example_heli] by simp
qed

text \<open>
  C8 fails on the code. The ammo-vote targets are sorted by their own \<open>x\<close> and the first
  is taken, whatever the unit's position. For a firing unit at x = 100 with ammunition
  and votes for a tank at x = -100, a helicopter at x = 400 and a turret at x = 160
  (each between the unit's width, 48, and 320 away, as a vote must be),
  \<open>data.ammoTarget\<close> is the tank at x = -100 (distance 200), not the turret at x = 160
  (distance 60), and \<open>setCPUFiringRate\<close> gets the type of the tank. The nearest target
  is in the middle of the sorted votes, so it is at neither end of them.
\<close>

theorem maybeFireOrBomb_picks_leftmost:
  "h_firing example_heli \<and> h_ammo example_heli \<noteq> 0 \<and> h_votes_ammo example_heli \<noteq> 0 \<and>
   map (\<lambda>t. 48 < \<bar>d_x t - h_x example_heli\<bar> \<and> \<bar>d_x t - h_x example_heli\<bar> < 320)
       (h_ammoTargets example_heli) = [True, True, True] \<and>
   map_option d_id (h_ammoTarget (maybeFireOrBomb callAction example_heli)) = Some ''tank-8'' \<and>
   map_option d_x (h_ammoTarget (maybeFireOrBomb callAction example_heli)) = Some (- 100) \<and>
   h_fireRateCalls (maybeFireOrBomb callAction example_heli) = [Some TYPES_tank] \<and>
   map d_id (h_ammoTargets (maybeFireOrBomb callAction example_heli))
     = [''tank-8'', ''turret-2'', ''helicopter-1''] \<and>
   \<bar>160 - h_x example_heli\<bar> < \<bar>- 100 - h_x example_heli\<bar>"
  by (simp add: maybeFireOrBomb_def sort_compare_def example_heli_def example_unit_def Let_def)

section \<open>Properties of query construction\<close>


lemma split_on_absent: "c \<notin> set s \<Longrightarrow> split_on c s = [s]"
  by (induction s) auto

lemma split_on_nonempty: "split_on c s \<noteq> []"
  by (induction s) (auto split: list.splits)

lemma determineGroup_no_fault:
  "exports \<noteq> Some None \<Longrightarrow> \<exists>g. determineGroup ga exports = Inr g"
  by (auto simp: determineGroup_def Let_def split: option.splits)

lemma getTypes_item_no_fault:
  assumes "exports \<noteq> Some None"
  shows "\<exists>it. getTypes_item grp exports item = Inr it \<and> t_type it = TYPES (typePart item)"
proof (cases "CHR '':'' \<in> set item")
  case False
  then show ?thesis
    by (simp add: getTypes_item_def typePart_def split_on_absent)
next
  case True
  obtain g1 where g1: "determineGroup None exports = Inr g1"
    using determineGroup_no_fault [OF assms] by blast
  show ?thesis
  proof (cases "split_on CHR '':'' item")
    case Nil
    then show ?thesis by (simp add: split_on_nonempty)
  next
    case (Cons a0 as)
    show ?thesis
    proof (cases as)
      case Nil
      then show ?thesis using True g1 Cons
        by (simp add: getTypes_item_def typePart_def)
    next
      case (Cons a1 rest)
      obtain g2 where "determineGroup (Some a1) exports = Inr g2"
        using determineGroup_no_fault [OF assms] by blast
      then show ?thesis using True Cons \<open>split_on CHR '':'' item = a0 # as\<close>
        by (simp add: getTypes_item_def typePart_def)
    qed
  qed
qed

lemma map_throwing_no_fault:
  assumes "\<And>x. \<exists>y. f x = Inr y \<and> p y = q x"
  shows "\<exists>ys. map_throwing f xs = Inr ys \<and> map p ys = map q xs"
proof (induction xs)
  case Nil
  then show ?case by simp
next
  case (Cons x xs)
  obtain y where "f x = Inr y" "p y = q x" using assms by blast
  moreover obtain ys where "map_throwing f xs = Inr ys" "map p ys = map q xs"
    using Cons by blast
  ultimately show ?case by simp
qed

lemma map_eq_list_all2:
  assumes "map p ys = map q xs"
  shows "list_all2 (\<lambda>y x. p y = q x) ys xs"
  using assms
proof (induction ys arbitrary: xs)
  case Nil
  then show ?case by simp
next
  case (Cons y ys)
  then show ?case by (cases xs) auto
qed

text \<open>
  C7 as stated fails. \<open>getTypes\<close> looks every token up in \<open>TYPES\<close> and stores the
  result; nothing checks it. For the unknown token \<open>gizmo\<close> the table has no entry, and
  \<open>getTypes('tank, gizmo', { group: 'all' })\<close> returns normally, with an element whose
  type is \<open>undefined\<close>.
\<close>

theorem getTypes_unknown_token_counterexample:
  "TYPES ''gizmo'' = None \<and>
   getTypes (Some ''tank, gizmo'') options_all
     = Inr [\<lparr>t_type = Some TYPES_tank, t_group = Some ''all''\<rparr>,
            \<lparr>t_type = None, t_group = Some ''all''\<rparr>]"
  by code_simp

text \<open>
  C7, amended. For every type string and all options whose \<open>exports\<close> is absent or a
  game object with \<open>data\<close>, \<open>getTypes\<close> does not fault, also when the string contains an
  unknown type token. For an ASCII type string it returns one element per token, and
  for every token whose type part is not the name of a member of \<open>Object.prototype\<close>
  the type of the element is the \<open>TYPES\<close> entry of that type part: \<open>undefined\<close> for an
  unknown token.
\<close>

theorem getTypes_unknown_token_no_fault:
  assumes "o_exports options \<noteq> Some None"
  shows "\<exists>items. getTypes (Some s) options = Inr items \<and>
           (isASCII s \<longrightarrow>
              list_all2 (\<lambda>item token. typePart token \<notin> set objectPrototypeNames
                                        \<longrightarrow> t_type item = TYPES (typePart token))
                items (parseTypeString (Some s)))"
proof -
  let ?g0 = "case o_group options of None \<Rightarrow> ''enemy'' | Some g \<Rightarrow> if g = [] then ''enemy'' else g"
  obtain grp where grp: "(if ?g0 \<noteq> ''all'' then determineGroup (Some ?g0) (o_exports options)
                    else Inr (Some ?g0)) = Inr grp"
    using determineGroup_no_fault [OF assms, of "Some ?g0"] by (cases "?g0 = ''all''") auto
  have "\<exists>ys. map_throwing (getTypes_item grp (o_exports options)) (parseTypeString (Some s)) = Inr ys \<and>
          map t_type ys = map (\<lambda>item. TYPES (typePart item)) (parseTypeString (Some s))"
    by (rule map_throwing_no_fault) (rule getTypes_item_no_fault [OF assms])
  then obtain ys where ys:
    "map_throwing (getTypes_item grp (o_exports options)) (parseTypeString (Some s)) = Inr ys"
    "map t_type ys = map (\<lambda>item. TYPES (typePart item)) (parseTypeString (Some s))"
    by blast
  have "list_all2 (\<lambda>item token. t_type item = TYPES (typePart token)) ys (parseTypeString (Some s))"
    using ys(2) by (rule map_eq_list_all2)
  then have "list_all2 (\<lambda>item token. typePart token \<notin> set objectPrototypeNames
                                        \<longrightarrow> t_type item = TYPES (typePart token))
               ys (parseTypeString (Some s))"
    by (rule list_all2_mono) simp
  then show ?thesis
    using grp ys(1) by (simp add: getTypes_def Let_def)
qed

theorem getTypes_unknown_token_no_fault_witness:
  "\<exists>items. getTypes (Some ''gizmo tank:friendly'') options_enemy_unit = Inr items \<and>
      map t_type items = [None, Some TYPES_tank]"
proof -
  have a: "o_exports options_enemy_unit \<noteq> Some None"
    by (simp add: options_enemy_unit_def)
  have asc: "isASCII ''gizmo tank:friendly''"
    by code_simp
  have tok: "parseTypeString (Some ''gizmo tank:friendly'') = [''gizmo'', ''tank:friendly'']"
    by code_simp
  have np: "typePart ''gizmo'' \<notin> set objectPrototypeNames"
    "typePart ''tank:friendly'' \<notin> set objectPrototypeNames"
    by code_simp+
  have ty: "TYPES (typePart ''gizmo'') = None" "TYPES (typePart ''tank:friendly'') = Some TYPES_tank"
    by code_simp+
  from getTypes_unknown_token_no_fault [OF a, of "''gizmo tank:friendly''"]
  obtain items where items: "getTypes (Some ''gizmo tank:friendly'') options_enemy_unit = Inr items"
    "list_all2 (\<lambda>item token. typePart token \<notin> set objectPrototypeNames
                                        \<longrightarrow> t_type item = TYPES (typePart token))
                items [''gizmo'', ''tank:friendly'']"
    using asc tok by auto
  from items(2) have "map t_type items = [None, Some TYPES_tank]"
    using np ty by (auto simp: list_all2_Cons2)
  with items(1) show ?thesis
    by (intro exI [of _ items]) simp
qed

section \<open>Properties of collision dispatch\<close>

lemma collisionCheckTweens_keeps:
  assumes "collisionCheckTweens (Some s) (Some t) rep = (r, Some d)"
  shows "d_type d = d_type s \<and> d_role d = d_role s"
  using assms
  by (auto simp: collisionCheckTweens_def Let_def split: if_splits option.splits prod.splits)

lemma collisionCheckObject_loop_calls:
  assumes "\<forall>hc\<in>set calls. hit_call_ok hc"
  shows "\<forall>hc\<in>set (snd (snd (collisionCheckObject_loop ue opts sRef xla targets (fh, g, calls)))).
           hit_call_ok hc"
  using assms
proof (induction targets arbitrary: fh g calls)
  case Nil
  then show ?case by simp
next
  case (Cons targetID rest)
  show ?case
  proof (cases "objectsById g targetID")
    case None
    then show ?thesis using Cons by simp
  next
    case (Some tRef)
    define sData where "sData = objectData g sRef"
    define tData where "tData = objectData g tRef"
    show ?thesis
    proof (cases "collisionEligible (co_friendlyOnly opts) sData tData")
      case False
      then show ?thesis using Cons Some by (simp add: sData_def tData_def)
    next
      case True
      define plain where "plain = collisionCheck sData tData xla"
      define tween where "tween = (if \<not> plain \<and> co_checkTweens opts
                            then collisionCheckTweens (Some sData) (Some tData)
                                   (co_checkTweensRepositionOnHit opts)
                            else (None, Some sData))"
      define sData1 where "sData1 = (case snd tween of Some d \<Rightarrow> d | None \<Rightarrow> sData)"
      define g1 where "g1 = g\<lparr>objectData := (objectData g)(sRef := sData1)\<rparr>"
      have keep: "d_type sData1 = d_type sData \<and> d_role sData1 = d_role sData"
      proof (cases "snd tween")
        case None
        then show ?thesis by (simp add: sData1_def)
      next
        case (Some d)
        show ?thesis
        proof (cases "\<not> plain \<and> co_checkTweens opts")
          case True
          then have "collisionCheckTweens (Some sData) (Some tData)
                       (co_checkTweensRepositionOnHit opts) = (fst tween, Some d)"
            using Some by (simp add: tween_def prod_eq_iff)
          from collisionCheckTweens_keeps [OF this] show ?thesis
            using Some by (simp add: sData1_def)
        next
          case False
          then show ?thesis by (auto simp: sData1_def tween_def)
        qed
      qed
      have new_ok: "hit_call_ok \<lparr>hc_id = d_id tData, hc_target = tData, hc_source = objectData g1 sRef\<rparr>"
        using True keep by (auto simp: hit_call_ok_def collisionEligible_def g1_def)
      have ok': "\<forall>hc\<in>set (calls @ [\<lparr>hc_id = d_id tData, hc_target = tData,
                                     hc_source = objectData g1 sRef\<rparr>]). hit_call_ok hc"
        using Cons.prems new_ok by simp
      have step: "collisionCheckObject_loop ue opts sRef xla (targetID # rest) (fh, g, calls) =
          (if plain \<or> truthy (fst tween) \<or>
              (\<not> plain \<and> \<not> truthy (fst tween) \<and> d_type tData = TYPES_helicopter \<and>
               d_type sData1 = TYPES_superBunker \<and> collisionCheck sData1 tData (- xla))
           then (case co_hit opts of
                   Some hit \<Rightarrow>
                     collisionCheckObject_loop ue opts sRef xla rest
                       (Some True,
                        ue (d_id (objectData (hit (d_id tData) (co_source opts) g1) tRef))
                           (hit (d_id tData) (co_source opts) g1),
                        calls @ [\<lparr>hc_id = d_id tData, hc_target = tData,
                                  hc_source = objectData g1 sRef\<rparr>])
                 | None \<Rightarrow> collisionCheckObject_loop ue opts sRef xla rest (Some True, g1, calls))
           else collisionCheckObject_loop ue opts sRef xla rest (fh, g1, calls))"
        using Some True
        unfolding g1_def sData1_def tween_def plain_def sData_def tData_def
        by (cases "co_hit opts") (simp_all add: Let_def)
      show ?thesis
        unfolding step
        using Cons.IH [OF Cons.prems] Cons.IH [OF ok']
        by (simp split: option.splits)
    qed
  qed
qed

lemma collisionCheckObject_calls:
  "\<forall>hc\<in>set (snd (snd (collisionCheckObject ue opts g))). hit_call_ok hc"
proof -
  have *: "\<And>sRef xla targets g'. \<forall>hc\<in>set (snd (snd (collisionCheckObject_loop ue opts sRef xla targets (None, g', [])))). hit_call_ok hc"
    by (rule collisionCheckObject_loop_calls) simp
  show ?thesis
    unfolding collisionCheckObject_def Let_def
    by (simp split: option.splits source.splits add: *)
qed


lemma collisionCheckZone_loop_calls:
  assumes "\<forall>hc\<in>set calls. hit_call_ok hc"
  shows "\<forall>hc\<in>set (snd (snd (snd (collisionCheckZone_loop ue opts zone items (g, calls))))).
           hit_call_ok hc"
  using assms
proof (induction items arbitrary: opts g calls)
  case Nil
  then show ?case by simp
next
  case (Cons item items)
  show ?case
  proof (cases "case zone of None \<Rightarrow> None | Some z \<Rightarrow> objectsByZone g z")
    case None
    then show ?thesis using Cons.prems by simp
  next
    case (Some zoneObjects)
    show ?thesis
    proof (cases "zoneObjects (propertyKey (t_group item))")
      case None
      then show ?thesis using Cons.prems Some by simp
    next
      case byType: (Some byType)
      show ?thesis
      proof (cases "byType (propertyKey (t_type item))")
        case None
        then show ?thesis
          using Some byType Cons.IH [OF Cons.prems] by simp
      next
        case targets: (Some targets)
        define opts1 where "opts1 = opts\<lparr>co_targets := Some targets\<rparr>"
        obtain r g1 calls1 where c: "collisionCheckObject ue opts1 g = (r, g1, calls1)"
          by (cases "collisionCheckObject ue opts1 g") auto
        have "\<forall>hc\<in>set calls1. hit_call_ok hc"
          using collisionCheckObject_calls [of ue opts1 g] c by simp
        then have "\<forall>hc\<in>set (calls @ calls1). hit_call_ok hc"
          using Cons.prems by auto
        from Cons.IH [OF this] show ?thesis
          using Some byType targets c by (simp add: Let_def opts1_def)
      qed
    qed
  qed
qed

lemma collisionCheckZone_calls:
  assumes "\<forall>hc\<in>set calls. hit_call_ok hc"
  shows "\<forall>hc\<in>set (snd (snd (snd (collisionCheckZone ue c zone (g, calls))))). hit_call_ok hc"
  using collisionCheckZone_loop_calls [OF assms, of ue "c_options c" zone "c_items c" g]
  by (simp add: collisionCheckZone_def split: prod.splits)

lemma collisionTest_calls:
  "\<forall>hc\<in>set (snd (snd (snd (collisionTest ue c exports g)))). hit_call_ok hc"
proof (cases "d_frontZone (objectData g exports) = None \<or> d_rearZone (objectData g exports) = None")
  case True
  then show ?thesis by (simp add: collisionTest_def)
next
  case False
  define c1 where "c1 = (if sourceIsFalsy (co_source (c_options c))
               then c\<lparr>c_options := (c_options c)\<lparr>co_source := Some (SourceExports exports)\<rparr>\<rparr>
               else c)"
  obtain out1 c2 g1 calls1 where z1:
    "collisionCheckZone ue c1 (d_frontZone (objectData g exports)) (g, []) = (out1, c2, g1, calls1)"
    by (cases "collisionCheckZone ue c1 (d_frontZone (objectData g exports)) (g, [])") auto
  have ok1: "\<forall>hc\<in>set calls1. hit_call_ok hc"
    using collisionCheckZone_calls [of "[]" ue c1 "d_frontZone (objectData g exports)" g] z1 by simp
  have ok2: "\<forall>hc\<in>set (snd (snd (snd (collisionCheckZone ue c2 (d_rearZone (objectData g1 exports))
                 (g1, calls1))))). hit_call_ok hc"
    using ok1 by (rule collisionCheckZone_calls)
  show ?thesis
    using False z1 ok1 ok2
    by (simp add: collisionTest_def Let_def c1_def [symmetric] split: outcome.splits)
qed

text \<open>
  C2 as stated fails. A dead turret stays eligible when the source is an engineer
  (infantry with a role): "ignore dead targets (unless a turret, which can be reclaimed
  / repaired by engineers)". With an engineer standing on a dead enemy turret,
  \<open>collisionCheckObject\<close>, and \<open>collisionTest\<close> over the engineer's zone, invoke the hit
  callback with the id of the dead turret.
\<close>

theorem hit_dead_turret_counterexample:
  "map hc_id (snd (snd (collisionCheckObject example_updateEnergy example_options example_game)))
     = [''turret-2''] \<and>
   map (d_dead \<circ> hc_target)
       (snd (snd (collisionCheckObject example_updateEnergy example_options example_game)))
     = [True] \<and>
   map_option (d_dead \<circ> objectData example_game) (objectsById example_game ''turret-2'')
     = Some True \<and>
   map hc_id (snd (snd (snd (collisionTest example_updateEnergy example_collision 0 example_game))))
     = [''turret-2'']"
  by (simp add: collisionCheckObject_def collisionTest_def collisionCheckZone_def
      collisionEligible_def collisionCheck_def sourceIsFalsy_def propertyKey_def
      example_options_def example_collision_def example_game_def example_engineer_def
      example_dead_turret_def example_unit_def example_hit_def example_updateEnergy_def Let_def)

text \<open>
  C2, amended. In every pass of \<open>collisionCheckObject\<close> and of \<open>collisionTest\<close>, over any
  source, targets, callbacks and game, every invocation of the hit callback gets the id
  of a unit whose \<open>excludeFromCollision\<close> flag is not set, and which at the moment of
  the call is alive, or is a dead turret while the source is an engineer.
\<close>

theorem hit_calls_live_or_reclaimable:
  "(\<forall>hc\<in>set (snd (snd (collisionCheckObject updateEnergy options g))). hit_call_ok hc) \<and>
   (\<forall>hc\<in>set (snd (snd (snd (collisionTest updateEnergy collision exports g)))). hit_call_ok hc)"
  using collisionCheckObject_calls collisionTest_calls by blast

theorem hit_calls_live_or_reclaimable_witness:
  "\<exists>h1 h2.
      snd (snd (collisionCheckObject example_updateEnergy
                  (example_options\<lparr>co_targets := Some [''tank-9'', ''turret-2'']\<rparr>)
                  example_game)) = [h1, h2] \<and>
      hc_id h1 = ''tank-9'' \<and> \<not> d_dead (hc_target h1) \<and> hit_call_ok h1 \<and>
      hc_id h2 = ''turret-2'' \<and> d_dead (hc_target h2) \<and> hit_call_ok h2"
proof -
  let ?calls = "snd (snd (collisionCheckObject example_updateEnergy
                  (example_options\<lparr>co_targets := Some [''tank-9'', ''turret-2'']\<rparr>)
                  example_game))"
  have calls: "?calls =
      [\<lparr>hc_id = ''tank-9'', hc_target = example_live_tank, hc_source = example_engineer\<rparr>,
       \<lparr>hc_id = ''turret-2'', hc_target = example_dead_turret, hc_source = example_engineer\<rparr>]"
    by (simp add: collisionCheckObject_def collisionEligible_def collisionCheck_def
        example_options_def example_game_def example_engineer_def example_dead_turret_def
        example_live_tank_def example_unit_def example_hit_def example_updateEnergy_def Let_def)
  have "\<forall>hc\<in>set ?calls. hit_call_ok hc"
    using hit_calls_live_or_reclaimable
      [of example_updateEnergy "example_options\<lparr>co_targets := Some [''tank-9'', ''turret-2'']\<rparr>"
          example_game]
    by blast
  then show ?thesis
    unfolding calls
    by (simp add: example_live_tank_def example_dead_turret_def example_unit_def)
qed

section \<open>Properties of the nearest-object query\<close>


lemma sqrt_2500: "sqrt 2500 = 50"
  by (rule real_sqrt_unique) simp_all

lemma sqrt_6400: "sqrt 6400 = 80"
  by (rule real_sqrt_unique) simp_all

lemmas nearest_example_defs =
  sortedLocalObjects_def nearest_options0_def nearest_items_def propertyKey_def
  List.map_filter_simps candidateOf_def nearest_source_def nearest_superBunker_def
  nearest_aircraft_def nearest_tank_def example_unit_def Let_def sort_compare_def
  sqrt_2500 sqrt_6400

lemma sorted_with_aircraft:
  "sortedLocalObjects objects_with_aircraft nearest_source nearest_options0
     = Inr [\<lparr>c_obj = nearest_superBunker, c_totalDistance = 50\<rparr>,
            \<lparr>c_obj = nearest_aircraft, c_totalDistance = 80\<rparr>]"
  by (simp add: nearest_example_defs objects_with_aircraft_def)

lemma sorted_bunker_only:
  "sortedLocalObjects objects_bunker_only nearest_source nearest_options0
     = Inr [\<lparr>c_obj = nearest_superBunker, c_totalDistance = 50\<rparr>]"
  by (simp add: nearest_example_defs objects_bunker_only_def)

lemma sorted_with_tank:
  "sortedLocalObjects objects_with_tank nearest_source nearest_options0
     = Inr [\<lparr>c_obj = nearest_superBunker, c_totalDistance = 50\<rparr>,
            \<lparr>c_obj = nearest_tank, c_totalDistance = 80\<rparr>]"
  by (simp add: nearest_example_defs objects_with_tank_def)

text \<open>
  C5 as stated fails for an enemy helicopter. Its sorted candidates are reversed before
  the super-bunker rules apply ("enemy helicopter: reverse the array"), so with a super
  bunker at distance 50 and a bottom-aligned tank at distance 80 the tank comes first
  and its id is returned, where C5 has no target.
\<close>

theorem getNearestObject_enemy_counterexample:
  "d_type nearest_enemy_source = TYPES_helicopter \<and>
   map_sum id (map (\<lambda>c. (d_id (g_data (c_obj c)), d_type (g_data (c_obj c)),
                          d_bottomAligned (g_data (c_obj c)), c_totalDistance c)))
     (sortedLocalObjects objects_for_enemy nearest_enemy_source nearest_options0)
     = Inr [(''super-bunker-1'', TYPES_superBunker, True, 50), (''tank-5'', TYPES_tank, True, 80)] \<and>
   getNearestObject objects_for_enemy nearest_enemy_source nearest_options0 = Inr (RId ''tank-5'')"
  by (simp add: getNearestObject_def selectNearest_def nearest_example_defs
      objects_for_enemy_def nearest_enemy_source_def)

text \<open>
  C5, amended. For a helicopter source whose candidates after distance sorting are
  exactly a super bunker and then an opposing aircraft that is not bottom-aligned (at
  distances 50 and 80, or any others), \<open>getNearestObject\<close> without \<open>getAll\<close> returns the
  aircraft's id; when the super bunker is the only candidate it returns no target
  (\<open>undefined\<close>); and for a helicopter that is not an enemy helicopter, when the super
  bunker is followed by a bottom-aligned candidate it returns no target.
\<close>

theorem getNearestObject_super_bunker_rule:
  assumes heli: "d_type sData = TYPES_helicopter"
    and srt: "sortedLocalObjects objects sData options = Inr sortedObjects"
    and sb: "d_type (g_data (c_obj bunker)) = TYPES_superBunker"
  shows "(sortedObjects = [bunker, aircraft] \<and>
            d_type (g_data (c_obj aircraft)) = TYPES_helicopter \<and>
            \<not> d_bottomAligned (g_data (c_obj aircraft)) \<and> \<not> no_getAll options
          \<longrightarrow> getNearestObject objects sData options
                = Inr (RId (d_id (g_data (c_obj aircraft))))) \<and>
         (sortedObjects = [bunker]
          \<longrightarrow> getNearestObject objects sData options = Inr RUndefined) \<and>
         (sortedObjects = bunker # second # rest \<and>
            d_bottomAligned (g_data (c_obj second)) \<and> \<not> d_isEnemy sData
          \<longrightarrow> getNearestObject objects sData options = Inr RUndefined)"
  using heli srt sb
  by (auto simp: getNearestObject_def selectNearest_def Let_def)

theorem getNearestObject_super_bunker_rule_witness:
  "getNearestObject objects_with_aircraft nearest_source nearest_options0
     = Inr (RId ''helicopter-1'') \<and>
   getNearestObject objects_bunker_only nearest_source nearest_options0 = Inr RUndefined \<and>
   getNearestObject objects_with_tank nearest_source nearest_options0 = Inr RUndefined"
proof -
  have h: "d_type nearest_source = TYPES_helicopter"
    and b: "d_type (g_data (c_obj \<lparr>c_obj = nearest_superBunker, c_totalDistance = 50\<rparr>))
              = TYPES_superBunker"
    by (simp_all add: nearest_source_def nearest_superBunker_def example_unit_def)
  have "getNearestObject objects_with_aircraft nearest_source nearest_options0
          = Inr (RId ''helicopter-1'')"
    using getNearestObject_super_bunker_rule [OF h sorted_with_aircraft b,
        of "\<lparr>c_obj = nearest_aircraft, c_totalDistance = 80\<rparr>"]
    by (simp add: nearest_aircraft_def nearest_options0_def example_unit_def)
  moreover have "getNearestObject objects_bunker_only nearest_source nearest_options0
          = Inr RUndefined"
    using getNearestObject_super_bunker_rule [OF h sorted_bunker_only b]
    by simp
  moreover have "getNearestObject objects_with_tank nearest_source nearest_options0
          = Inr RUndefined"
    using getNearestObject_super_bunker_rule [OF h sorted_with_tank b,
        where second = "\<lparr>c_obj = nearest_tank, c_totalDistance = 80\<rparr>" and rest = "[]"]
    by (simp add: nearest_tank_def nearest_source_def example_unit_def)
  ultimately show ?thesis by simp
qed

end
